theory Spec2Isabelle
  imports Complex_Main "HOL-Library.AList"
begin

section \<open>JavaScript values\<close>

text \<open>
  The derivation layer of the KYC console is plain JavaScript working on JSON payloads.
  A string is its sequence of UTF-16 code units, so that \<open>length\<close> is the source's
  \<open>.length\<close>. \<open>U\<close> embeds an ASCII literal.
\<close>

type_synonym ustring = "nat list"

definition U :: "string \<Rightarrow> ustring" where
  "U s = map of_char s"

text \<open>
  A finite number is the exact rational that the double denotes; \<open>NaN\<close> is the result of
  a failed conversion, and the infinities are outside the model. Comparisons, \<open>Math.min\<close>,
  \<open>Math.max\<close> and \<open>Math.round\<close> are exact on doubles. A product is not: the language
  rounds it to a double, so the product is a parameter of the model (\<open>fl_times\<close> below).
  Sums and quotients of fraud scores, and the small integers of a date, are taken exact.
\<close>

datatype number = NaN | Fin rat

datatype jsval =
    Undefined
  | Null
  | Bool bool
  | Num number
  | Str ustring
  | Arr "jsval list"
  | Obj "(ustring \<times> jsval) list"

text \<open>The only exception the modelled code can raise.\<close>

datatype error = TypeError

text \<open>Local calendar fields of a valid \<open>Date\<close>, as its getters return them
  (\<open>getMonth\<close> counts from 0).\<close>

record ltime =
  year :: int
  month :: nat
  day :: nat
  hours :: nat
  minutes :: nat
  seconds :: nat

text \<open>
  Built-ins of the language whose definition is not part of the repository are parameters
  of the model: \<open>String.prototype.toLowerCase\<close>, the conversion of a string to a number
  (\<open>Number(s)\<close>), \<open>parseFloat\<close>, the printing of a number that is not a small integer,
  \<open>new Date(v)\<close> read in the local time zone (\<open>None\<close> is an Invalid Date), and the product
  \<open>a * b\<close> of two finite numbers, which IEEE 754 rounds to the nearest double.
\<close>

record runtime =
  toLowerCase :: "ustring \<Rightarrow> ustring"
  StringToNumber :: "ustring \<Rightarrow> number"
  parseFloat :: "ustring \<Rightarrow> number"
  NumberToString :: "rat \<Rightarrow> ustring"
  new_Date :: "jsval \<Rightarrow> ltime option"
  fl_times :: "rat \<Rightarrow> rat \<Rightarrow> rat"

subsection \<open>Truthiness, property reads, the short-circuit operators\<close>

fun truthy :: "jsval \<Rightarrow> bool" where
  "truthy Undefined = False"
| "truthy Null = False"
| "truthy (Bool b) = b"
| "truthy (Num NaN) = False"
| "truthy (Num (Fin q)) = (q \<noteq> 0)"
| "truthy (Str s) = (s \<noteq> [])"
| "truthy (Arr xs) = True"
| "truthy (Obj kvs) = True"

fun nullish :: "jsval \<Rightarrow> bool" where
  "nullish Undefined = True"
| "nullish Null = True"
| "nullish v = False"

text \<open>
  \<open>v.k\<close> for a value that is neither \<open>null\<close> nor \<open>undefined\<close> (on those the read raises
  a TypeError, which every function below tests before it reads). The keys the code reads
  are no built-in property of a string, an array, a number or a boolean, so only an
  object can hold them.
\<close>

fun get :: "jsval \<Rightarrow> ustring \<Rightarrow> jsval" where
  "get (Obj kvs) k = (case map_of kvs k of None \<Rightarrow> Undefined | Some v \<Rightarrow> v)"
| "get v k = Undefined"

text \<open>\<open>v?.k\<close>\<close>

definition get_opt :: "jsval \<Rightarrow> ustring \<Rightarrow> jsval" where
  "get_opt v k = (if nullish v then Undefined else get v k)"

text \<open>\<open>a || b\<close> and \<open>a ?? b\<close> on values whose evaluation cannot raise.\<close>

definition or_else :: "jsval \<Rightarrow> jsval \<Rightarrow> jsval" where
  "or_else a b = (if truthy a then a else b)"

definition coalesce :: "jsval \<Rightarrow> jsval \<Rightarrow> jsval" where
  "coalesce a b = (if nullish a then b else a)"

subsection \<open>Strings\<close>

text \<open>Decimal digits of a natural number, as \<open>String(n)\<close> prints an integer that a double
  holds exactly (up to \<open>2^53\<close>); a larger one prints as its shortest round-trip decimal,
  which is left to the runtime.\<close>

fun digits :: "nat \<Rightarrow> ustring" where
  "digits n = (if n < 10 then [48 + n] else digits (n div 10) @ [48 + n mod 10])"

declare digits.simps [simp del]

definition int_to_string :: "int \<Rightarrow> ustring" where
  "int_to_string i = (if i < 0 then U ''-'' @ digits (nat (- i)) else digits (nat i))"

definition is_integer :: "rat \<Rightarrow> bool" where
  "is_integer q = (of_int \<lfloor>q\<rfloor> = q)"

definition num_to_string :: "runtime \<Rightarrow> number \<Rightarrow> ustring" where
  "num_to_string rt n =
     (case n of
        NaN \<Rightarrow> U ''NaN''
      | Fin q \<Rightarrow>
          if is_integer q \<and> \<bar>q\<bar> \<le> 9007199254740992 then int_to_string \<lfloor>q\<rfloor>
          else NumberToString rt q)"

text \<open>\<open>Array.prototype.join\<close> on strings.\<close>

fun join :: "ustring \<Rightarrow> ustring list \<Rightarrow> ustring" where
  "join sep [] = []"
| "join sep [x] = x"
| "join sep (x # y # ys) = x @ sep @ join sep (y # ys)"

text \<open>\<open>String(v)\<close>. An array prints its elements joined by commas, \<open>null\<close> and \<open>undefined\<close>
  elements as nothing; an object parsed from JSON prints as \<open>[object Object]\<close>.\<close>

fun to_String :: "runtime \<Rightarrow> jsval \<Rightarrow> ustring" where
  "to_String rt Undefined = U ''undefined''"
| "to_String rt Null = U ''null''"
| "to_String rt (Bool b) = (if b then U ''true'' else U ''false'')"
| "to_String rt (Num n) = num_to_string rt n"
| "to_String rt (Str s) = s"
| "to_String rt (Arr xs) =
     join (U '','') (map (\<lambda>x. if nullish x then [] else to_String rt x) xs)"
| "to_String rt (Obj kvs) = U ''[object Object]''"

text \<open>\<open>Number(v)\<close>.\<close>

fun to_Number :: "runtime \<Rightarrow> jsval \<Rightarrow> number" where
  "to_Number rt Undefined = NaN"
| "to_Number rt Null = Fin 0"
| "to_Number rt (Bool b) = (if b then Fin 1 else Fin 0)"
| "to_Number rt (Num n) = n"
| "to_Number rt (Str s) = StringToNumber rt s"
| "to_Number rt v = StringToNumber rt (to_String rt v)"

text \<open>The code units that \<open>trim\<close> removes and \<open>\s\<close> matches: WhiteSpace and LineTerminator.\<close>

definition is_space :: "nat \<Rightarrow> bool" where
  "is_space c \<longleftrightarrow>
     c \<in> {9, 10, 11, 12, 13, 32, 160, 5760, 8232, 8233, 8239, 8287, 12288, 65279}
     \<or> (8192 \<le> c \<and> c \<le> 8202)"

definition is_digit :: "nat \<Rightarrow> bool" where
  "is_digit c \<longleftrightarrow> 48 \<le> c \<and> c \<le> 57"

definition trim :: "ustring \<Rightarrow> ustring" where
  "trim s = rev (dropWhile is_space (rev (dropWhile is_space s)))"

text \<open>\<open>s.slice(-k)\<close> for \<open>k > 0\<close>: the last \<open>k\<close> code units, the whole string when it is shorter.\<close>

definition lastn :: "nat \<Rightarrow> 'a list \<Rightarrow> 'a list" where
  "lastn k xs = drop (length xs - k) xs"

text \<open>\<open>s.padStart(n, "0")\<close>\<close>

definition padStart0 :: "nat \<Rightarrow> ustring \<Rightarrow> ustring" where
  "padStart0 n s = replicate (n - length s) 48 @ s"

text \<open>\<open>s.includes(t)\<close>\<close>

fun str_includes :: "ustring \<Rightarrow> ustring \<Rightarrow> bool" where
  "str_includes [] t = (t = [])"
| "str_includes (c # s) t = (take (length t) (c # s) = t \<or> str_includes s t)"

subsection \<open>Numbers\<close>

text \<open>Comparisons with a constant; every comparison with \<open>NaN\<close> is false.\<close>

fun num_gt :: "number \<Rightarrow> rat \<Rightarrow> bool" where
  "num_gt NaN k = False"
| "num_gt (Fin q) k = (q > k)"

fun num_ge :: "number \<Rightarrow> rat \<Rightarrow> bool" where
  "num_ge NaN k = False"
| "num_ge (Fin q) k = (q \<ge> k)"

fun num_le :: "number \<Rightarrow> rat \<Rightarrow> bool" where
  "num_le NaN k = False"
| "num_le (Fin q) k = (q \<le> k)"

text \<open>\<open>Math.round\<close>: to the nearest integer, a half towards \<open>+\<infinity>\<close>.\<close>

fun Math_round :: "number \<Rightarrow> number" where
  "Math_round NaN = NaN"
| "Math_round (Fin q) = Fin (of_int \<lfloor>q + 1 / 2\<rfloor>)"

text \<open>\<open>n || 0\<close> on a number.\<close>

fun num_or_0 :: "number \<Rightarrow> number" where
  "num_or_0 NaN = Fin 0"
| "num_or_0 (Fin q) = Fin q"

section \<open>Risk classifier\<close>

text \<open>\<open>riskBadgeLabel\<close> of the fraud alerts page: the label and the CSS class.\<close>

definition riskBadgeLabel :: "runtime \<Rightarrow> jsval \<Rightarrow> ustring \<times> ustring" where
  "riskBadgeLabel rt score =
     (let n = num_or_0 (to_Number rt score) in
      if num_gt n 70 then (U ''High'', U ''badge-high'')
      else if num_gt n 30 then (U ''Medium'', U ''badge-medium'')
      else (U ''Low'', U ''badge-low''))"

text \<open>\<open>n > 70 ? "High" : n > 30 ? "Medium" : "Low"\<close>, which the pages below write out where
  they need it.\<close>

definition thresholds :: "number \<Rightarrow> ustring" where
  "thresholds n =
     (if num_gt n 70 then U ''High'' else if num_gt n 30 then U ''Medium'' else U ''Low'')"

text \<open>\<open>formatRisk\<close> of the KYC requests page: a risk word in a string wins over its digits.\<close>

definition formatRisk :: "runtime \<Rightarrow> jsval \<Rightarrow> ustring" where
  "formatRisk rt val =
     (if val = Undefined \<or> val = Null \<or> val = Str [] then U ''Low''
      else case val of
        Str s \<Rightarrow>
          (let v = toLowerCase rt s in
           if str_includes v (U ''high'') then U ''High''
           else if str_includes v (U ''medium'') \<or> str_includes v (U ''med'') then U ''Medium''
           else if str_includes v (U ''low'') then U ''Low''
           else
             (let num = parseFloat rt (filter (\<lambda>c. is_digit c \<or> c = 46) s) in
              if num \<noteq> NaN then thresholds num else U ''Low''))
      | _ \<Rightarrow>
          (let n = to_Number rt val in
           if n = NaN then U ''Low'' else thresholds n))"

text \<open>The row of the KYC requests list:
  \<open>fr = r.fraud_result || {}; fs = Number(fr.fraud_score) || 0;
  risk = fs > 70 ? "High" : fs > 30 ? "Medium" : "Low"\<close>.\<close>

definition KycRequests_risk :: "runtime \<Rightarrow> jsval \<Rightarrow> error + ustring" where
  "KycRequests_risk rt r =
     (if nullish r then Inl TypeError
      else
        (let fr = or_else (get r (U ''fraud_result'')) (Obj []);
             fs = num_or_0 (to_Number rt (get fr (U ''fraud_score'')))
         in Inr (thresholds fs)))"

text \<open>The row of the fraud dashboard's table:
  \<open>fs = r.fraud_result.fraud_score || 0;
  risk = fs >= 71 ? "High" : fs >= 31 ? "Medium" : "Low"\<close>. The comparison converts
  \<open>fs\<close> to a number.\<close>

definition FraudDashboard_risk :: "runtime \<Rightarrow> jsval \<Rightarrow> error + ustring" where
  "FraudDashboard_risk rt r =
     (if nullish r \<or> nullish (get r (U ''fraud_result'')) then Inl TypeError
      else
        (let fs = or_else (get (get r (U ''fraud_result'')) (U ''fraud_score'')) (Num (Fin 0));
             n = to_Number rt fs
         in Inr (if num_ge n 71 then U ''High''
                 else if num_ge n 31 then U ''Medium'' else U ''Low'')))"

text \<open>The three bands as the specification words them.\<close>

definition bands :: "rat \<Rightarrow> ustring \<Rightarrow> bool" where
  "bands s l \<longleftrightarrow>
     (l = U ''High'' \<longleftrightarrow> 70 < s) \<and>
     (l = U ''Medium'' \<longleftrightarrow> 30 < s \<and> s \<le> 70) \<and>
     (l = U ''Low'' \<longleftrightarrow> s \<le> 30)"

section \<open>Confidence normalizer\<close>

text \<open>\<open>const fraud = r.fraud_result || {}\<close>, for a record \<open>r\<close> that is not \<open>null\<close> or
  \<open>undefined\<close>.\<close>

definition fraud_of :: "jsval \<Rightarrow> jsval" where
  "fraud_of r = or_else (get r (U ''fraud_result'')) (Obj [])"

text \<open>The value \<open>c\<close> starts with: the first alternate that is not \<open>null\<close> or \<open>undefined\<close>.\<close>

definition confidence_candidate :: "jsval \<Rightarrow> jsval" where
  "confidence_candidate r =
     (let fraud = fraud_of r in
      coalesce (coalesce (coalesce (coalesce (coalesce (coalesce (coalesce
        (get fraud (U ''confidence''))
        (get fraud (U ''confidence_score'')))
        (get fraud (U ''risk_score'')))
        (get fraud (U ''match_score'')))
        (get fraud (U ''similarity'')))
        (get r (U ''confidence'')))
        (get r (U ''score'')))
        Null)"

text \<open>\<open>Number(fraud.fraud_score ?? r.fraud_score ?? 0)\<close> and the three tiers, which the
  source writes out twice.\<close>

definition fraud_score_of :: "runtime \<Rightarrow> jsval \<Rightarrow> number" where
  "fraud_score_of rt r =
     to_Number rt
       (coalesce (coalesce (get (fraud_of r) (U ''fraud_score'')) (get r (U ''fraud_score'')))
          (Num (Fin 0)))"

definition three_tier :: "number \<Rightarrow> jsval" where
  "three_tier fs =
     (if num_gt fs 70 then Num (Fin 90) else if num_gt fs 30 then Num (Fin 75) else Num (Fin 60))"

text \<open>\<open>n * k\<close> for a constant \<open>k\<close>, rounded as the runtime rounds it.\<close>

fun num_times :: "runtime \<Rightarrow> number \<Rightarrow> rat \<Rightarrow> number" where
  "num_times rt NaN k = NaN"
| "num_times rt (Fin q) k = Fin (fl_times rt q k)"

text \<open>\<open>Math.min(k, n)\<close> and \<open>Math.max(k, n)\<close> for a constant \<open>k\<close>.\<close>

fun Math_min :: "rat \<Rightarrow> number \<Rightarrow> number" where
  "Math_min k NaN = NaN"
| "Math_min k (Fin q) = Fin (min k q)"

fun Math_max :: "rat \<Rightarrow> number \<Rightarrow> number" where
  "Math_max k NaN = NaN"
| "Math_max k (Fin q) = Fin (max k q)"

definition extractConfidence :: "runtime \<Rightarrow> jsval \<Rightarrow> error + jsval" where
  "extractConfidence rt r =
     (if nullish r then Inl TypeError
      else
        (let c = confidence_candidate r in
         if c = Null \<or> c = Undefined \<or> c = Str [] \<or> to_Number rt c = NaN
         then Inr (three_tier (fraud_score_of rt r))
         else
           (let n = to_Number rt c;
                n1 = (if num_gt n 0 \<and> num_le n 1 then num_times rt n 100 else n);
                n2 = Math_min 100 (Math_max 0 n1)
            in if num_le n2 1 then Inr (three_tier (fraud_score_of rt r))
               else Inr (Num (Math_round n2)))))"

text \<open>
  What IEEE 754 promises of a product in the normal range of the doubles: it is the
  double nearest to the exact product, so it is off by at most the fraction \<open>2^-53\<close> of it.
\<close>

definition rounds_to_nearest :: "runtime \<Rightarrow> bool" where
  "rounds_to_nearest rt \<longleftrightarrow>
     (\<forall>a b. 1 / 2 ^ 1022 \<le> \<bar>a * b\<bar> \<and> \<bar>a * b\<bar> < 2 ^ 1023
        \<longrightarrow> \<bar>fl_times rt a b - a * b\<bar> * 9007199254740992 \<le> \<bar>a * b\<bar>)"

section \<open>Reason builder\<close>

text \<open>\<open>fraud.flags || fraud.flag_codes || fraud.reasons || fraud.reason_codes || r.flags\<close>\<close>

definition flags_raw :: "jsval \<Rightarrow> jsval" where
  "flags_raw r =
     (let fraud = fraud_of r in
      or_else (or_else (or_else (or_else
        (get fraud (U ''flags''))
        (get fraud (U ''flag_codes'')))
        (get fraud (U ''reasons'')))
        (get fraud (U ''reason_codes'')))
        (get r (U ''flags'')))"

text \<open>\<open>flags\<close>: empty unless \<open>flagsRaw\<close> is an array, then its elements printed and lowered.\<close>

definition flag_codes :: "runtime \<Rightarrow> jsval \<Rightarrow> ustring list" where
  "flag_codes rt r =
     (case flags_raw r of
        Arr xs \<Rightarrow> map (\<lambda>f. toLowerCase rt (to_String rt f)) xs
      | _ \<Rightarrow> [])"

text \<open>\<open>const add = (msg) => { if (msg && !reasons.includes(msg)) reasons.push(msg); }\<close>\<close>

definition add :: "ustring \<Rightarrow> ustring list \<Rightarrow> ustring list" where
  "add msg reasons = (if msg \<noteq> [] \<and> msg \<notin> set reasons then reasons @ [msg] else reasons)"

text \<open>The five tests on \<open>flags\<close>, in the order of the source.\<close>

definition flag_reasons :: "ustring list \<Rightarrow> ustring list" where
  "flag_reasons flags =
     (let reasons = [];
          reasons = (if U ''duplicate_submission'' \<in> set flags
                     then add (U ''Duplicate submission detected'') reasons else reasons);
          reasons = (if U ''name_mismatch'' \<in> set flags
                     then add (U ''Name on document does not closely match user input'') reasons
                     else reasons);
          reasons = (if U ''duplicate_aadhaar'' \<in> set flags
                     then add (U ''Duplicate Aadhaar detected'') reasons else reasons);
          reasons = (if U ''duplicate_pan'' \<in> set flags
                     then add (U ''Duplicate PAN detected'') reasons else reasons);
          reasons = (if U ''aadhaar_pan_duplicate'' \<in> set flags
                     then add (U ''Aadhaar/PAN matches an existing record (duplicate)'') reasons
                     else reasons)
      in reasons)"

text \<open>The fallback text fields that are strings with something left after trimming.\<close>

definition is_text :: "jsval \<Rightarrow> bool" where
  "is_text x = (case x of Str s \<Rightarrow> 0 < length (trim s) | _ \<Rightarrow> False)"

definition str_of :: "jsval \<Rightarrow> ustring" where
  "str_of x = (case x of Str s \<Rightarrow> s | _ \<Rightarrow> [])"

definition reason_texts :: "jsval \<Rightarrow> ustring list" where
  "reason_texts r =
     (let fraud = fraud_of r in
      map str_of (filter is_text
        [get fraud (U ''reason''), get fraud (U ''reason_text''), get fraud (U ''description''),
         get fraud (U ''message''), get r (U ''reason''), get r (U ''reason_text''),
         get r (U ''description''), get r (U ''message''), get r (U ''notes'')]))"

text \<open>The function after its \<open>flags_text\<close> test.\<close>

definition reason_from_flags :: "runtime \<Rightarrow> jsval \<Rightarrow> ustring" where
  "reason_from_flags rt r =
     (let reasons = flag_reasons (flag_codes rt r) in
      if 0 < length reasons then join (U '', '') reasons
      else
        (let texts = reason_texts r in
         if 0 < length texts then join (U '', '') texts
         else U ''No anomalies detected for this KYC submission''))"

text \<open>
  \<open>buildRiskReason\<close>. A truthy \<open>flags_text\<close> that is not a string has no \<open>trim\<close> method, and
  the call raises a TypeError.
\<close>

definition buildRiskReason :: "runtime \<Rightarrow> jsval \<Rightarrow> error + jsval" where
  "buildRiskReason rt r =
     (if nullish r then Inl TypeError
      else
        (case get (fraud_of r) (U ''flags_text'') of
           Str s \<Rightarrow>
             if s \<noteq> [] \<and> trim s \<noteq> []
                \<and> toLowerCase rt (trim s) \<notin> set [U ''low'', U ''medium'', U ''high'']
             then Inr (Str (trim s))
             else Inr (Str (reason_from_flags rt r))
         | ft \<Rightarrow>
             if truthy ft then Inl TypeError else Inr (Str (reason_from_flags rt r))))"

text \<open>
  The precedence of the reason as the specification words it, written without the
  definitions above: the fraud payload of a record; the first truthy of the alternate
  flag fields, whose codes count when it is an array; the table of the known codes; the
  free-text fields that are strings with something left after trimming; and the four
  steps, of which the first that applies gives the reason.
\<close>

definition payload :: "jsval \<Rightarrow> jsval" where
  "payload r =
     (if truthy (get r (U ''fraud_result'')) then get r (U ''fraud_result'') else Obj [])"

fun first_truthy :: "jsval list \<Rightarrow> jsval" where
  "first_truthy [] = Undefined"
| "first_truthy [v] = v"
| "first_truthy (v # w # vs) = (if truthy v then v else first_truthy (w # vs))"

definition flag_fields :: "jsval \<Rightarrow> jsval list" where
  "flag_fields r =
     map (get (payload r)) [U ''flags'', U ''flag_codes'', U ''reasons'', U ''reason_codes'']
     @ [get r (U ''flags'')]"

definition spec_codes :: "runtime \<Rightarrow> jsval \<Rightarrow> ustring list" where
  "spec_codes rt r =
     (case first_truthy (flag_fields r) of
        Arr xs \<Rightarrow> map (toLowerCase rt \<circ> to_String rt) xs
      | _ \<Rightarrow> [])"

definition code_sentences :: "(ustring \<times> ustring) list" where
  "code_sentences =
     [(U ''duplicate_submission'', U ''Duplicate submission detected''),
      (U ''name_mismatch'', U ''Name on document does not closely match user input''),
      (U ''duplicate_aadhaar'', U ''Duplicate Aadhaar detected''),
      (U ''duplicate_pan'', U ''Duplicate PAN detected''),
      (U ''aadhaar_pan_duplicate'', U ''Aadhaar/PAN matches an existing record (duplicate)'')]"

definition recognized :: "ustring list \<Rightarrow> ustring list" where
  "recognized flags = map snd (filter (\<lambda>cm. fst cm \<in> set flags) code_sentences)"

definition text_fields :: "jsval \<Rightarrow> jsval list" where
  "text_fields r =
     map (get (payload r)) [U ''reason'', U ''reason_text'', U ''description'', U ''message'']
     @ map (get r)
         [U ''reason'', U ''reason_text'', U ''description'', U ''message'', U ''notes'']"

definition nonblank :: "jsval \<Rightarrow> ustring list" where
  "nonblank v = (case v of Str s \<Rightarrow> if trim s = [] then [] else [s] | _ \<Rightarrow> [])"

definition spec_texts :: "jsval \<Rightarrow> ustring list" where
  "spec_texts r = concat (map nonblank (text_fields r))"

definition default_reason :: ustring where
  "default_reason = U ''No anomalies detected for this KYC submission''"

definition is_risk_label :: "runtime \<Rightarrow> ustring \<Rightarrow> bool" where
  "is_risk_label rt t \<longleftrightarrow>
     toLowerCase rt t = U ''low'' \<or> toLowerCase rt t = U ''medium'' \<or> toLowerCase rt t = U ''high''"

definition reason_spec :: "runtime \<Rightarrow> jsval \<Rightarrow> ustring" where
  "reason_spec rt r =
     (let t = (case get (payload r) (U ''flags_text'') of Str s \<Rightarrow> trim s | _ \<Rightarrow> []);
          sentences = recognized (spec_codes rt r);
          texts = spec_texts r
      in if t \<noteq> [] \<and> \<not> is_risk_label rt t then t
         else if sentences \<noteq> [] then join (U '', '') sentences
         else if texts \<noteq> [] then join (U '', '') texts
         else default_reason)"

section \<open>Identifier maskers\<close>

text \<open>\<open>maskAadhaar\<close> and \<open>maskPan\<close> of the uploads list. \<open>/\D/g\<close> removes what is not a
  decimal digit, \<open>/\s/g\<close> removes white space; a short or odd-sized value is returned as
  it came.\<close>

definition maskAadhaar :: "runtime \<Rightarrow> jsval \<Rightarrow> jsval" where
  "maskAadhaar rt n =
     (if \<not> truthy n then Str (U ''-'')
      else
        (let d = filter is_digit (to_String rt n) in
         if length d < 8 then n
         else Str (take 4 d @ U ''-XXXX-'' @ lastn 4 d)))"

definition maskPan :: "runtime \<Rightarrow> jsval \<Rightarrow> jsval" where
  "maskPan rt p =
     (if \<not> truthy p then Str (U ''-'')
      else
        (let s = filter (\<lambda>c. \<not> is_space c) (to_String rt p) in
         if length s \<noteq> 10 then p
         else Str (take 5 s @ U ''-XX'' @ lastn 2 s)))"

text \<open>\<open>maskAadhaarUI\<close> and \<open>maskPanUI\<close> of the upload form: no length test.\<close>

definition maskAadhaarUI :: "runtime \<Rightarrow> jsval \<Rightarrow> ustring" where
  "maskAadhaarUI rt n =
     (if \<not> truthy n then U ''-''
      else take 4 (to_String rt n) @ U ''-XXXX-'' @ lastn 4 (to_String rt n))"

definition maskPanUI :: "runtime \<Rightarrow> jsval \<Rightarrow> ustring" where
  "maskPanUI rt p =
     (if \<not> truthy p then U ''-''
      else take 5 (to_String rt p) @ U ''-XX'' @ lastn 2 (to_String rt p))"

text \<open>\<open>maskNumber(numStr, visibleFront, visibleBack)\<close> of the KYC requests list, called with
  the counts 4, 4 and 3, 2.\<close>

definition maskNumber :: "runtime \<Rightarrow> jsval \<Rightarrow> nat \<Rightarrow> nat \<Rightarrow> ustring" where
  "maskNumber rt numStr visibleFront visibleBack =
     (if \<not> truthy numStr then U ''N/A''
      else
        (let s = filter (\<lambda>c. \<not> is_space c) (to_String rt numStr) in
         if length s \<le> visibleFront + visibleBack then s
         else
           (let middle = replicate (length s - visibleFront - visibleBack) 88
            in take visibleFront s @ middle @ drop (length s - visibleBack) s)))"

text \<open>
  What "the output exposes no more than the first \<open>f\<close> and the last \<open>b\<close> characters of the
  identifier \<open>s\<close>" means: either \<open>s\<close> has no character outside them and is shown as it is,
  or the output is that prefix, then only mask characters (\<open>X\<close> and \<open>-\<close>), then that suffix.
\<close>

definition is_mask :: "nat \<Rightarrow> bool" where
  "is_mask c \<longleftrightarrow> c = 88 \<or> c = 45"

definition exposes_only :: "nat \<Rightarrow> nat \<Rightarrow> ustring \<Rightarrow> ustring \<Rightarrow> bool" where
  "exposes_only f b s out \<longleftrightarrow>
     (length s \<le> f + b \<and> out = s)
     \<or> (let pre = take f s; suf = lastn b s;
             mid = take (length out - length pre - length suf) (drop (length pre) out)
         in out = pre @ mid @ suf \<and> list_all is_mask mid)"

section \<open>Timestamp formatter\<close>

text \<open>The getters of a \<open>Date\<close>: \<open>NaN\<close> on an Invalid Date.\<close>

definition getDate :: "ltime option \<Rightarrow> number" where
  "getDate d = (case d of None \<Rightarrow> NaN | Some t \<Rightarrow> Fin (of_nat (day t)))"

definition getMonth :: "ltime option \<Rightarrow> number" where
  "getMonth d = (case d of None \<Rightarrow> NaN | Some t \<Rightarrow> Fin (of_nat (month t)))"

definition getFullYear :: "ltime option \<Rightarrow> number" where
  "getFullYear d = (case d of None \<Rightarrow> NaN | Some t \<Rightarrow> Fin (of_int (year t)))"

definition getHours :: "ltime option \<Rightarrow> number" where
  "getHours d = (case d of None \<Rightarrow> NaN | Some t \<Rightarrow> Fin (of_nat (hours t)))"

definition getMinutes :: "ltime option \<Rightarrow> number" where
  "getMinutes d = (case d of None \<Rightarrow> NaN | Some t \<Rightarrow> Fin (of_nat (minutes t)))"

definition getSeconds :: "ltime option \<Rightarrow> number" where
  "getSeconds d = (case d of None \<Rightarrow> NaN | Some t \<Rightarrow> Fin (of_nat (seconds t)))"

text \<open>What the getters of a valid \<open>Date\<close> can return.\<close>

definition valid_ltime :: "ltime \<Rightarrow> bool" where
  "valid_ltime t \<longleftrightarrow>
     1 \<le> day t \<and> day t \<le> 31 \<and> month t \<le> 11 \<and> hours t \<le> 23 \<and> minutes t \<le> 59
     \<and> seconds t \<le> 59 \<and> \<bar>year t\<bar> \<le> 275760"

fun num_plus :: "number \<Rightarrow> rat \<Rightarrow> number" where
  "num_plus NaN k = NaN"
| "num_plus (Fin q) k = Fin (q + k)"

text \<open>\<open>n % k\<close> for a constant \<open>k > 0\<close>: the remainder has the sign of \<open>n\<close>.\<close>

fun num_rem :: "number \<Rightarrow> nat \<Rightarrow> number" where
  "num_rem NaN k = NaN"
| "num_rem (Fin q) k =
     Fin (q - of_nat k * of_int (if 0 \<le> q then \<lfloor>q / of_nat k\<rfloor> else \<lceil>q / of_nat k\<rceil>))"

text \<open>\<open>n || k\<close> on a number.\<close>

fun num_or :: "number \<Rightarrow> rat \<Rightarrow> number" where
  "num_or NaN k = Fin k"
| "num_or (Fin q) k = (if q = 0 then Fin k else Fin q)"

text \<open>The statements that \<open>formatExact\<close> and \<open>formatDate\<close> have in common, from
  \<open>const day\<close> to the template of the result.\<close>

definition render_timestamp :: "runtime \<Rightarrow> ltime option \<Rightarrow> ustring" where
  "render_timestamp rt d =
     (let day = padStart0 2 (num_to_string rt (getDate d));
          month = padStart0 2 (num_to_string rt (num_plus (getMonth d) 1));
          year = num_to_string rt (getFullYear d);
          hours = getHours d;
          minutes = padStart0 2 (num_to_string rt (getMinutes d));
          seconds = padStart0 2 (num_to_string rt (getSeconds d));
          ampm = (if num_ge hours 12 then U ''PM'' else U ''AM'');
          hours = num_rem hours 12;
          hours = num_or hours 12;
          hours = padStart0 2 (num_to_string rt hours)
      in day @ U ''/'' @ month @ U ''/'' @ year @ U '' '' @ hours @ U '':'' @ minutes @ U '':''
           @ seconds @ U '' '' @ ampm)"

text \<open>The em dash, U+2014.\<close>

definition em_dash :: ustring where
  "em_dash = [8212]"

text \<open>\<open>formatExact\<close> of the audit trail: an Invalid Date gives the argument back.\<close>

definition formatExact :: "runtime \<Rightarrow> jsval \<Rightarrow> jsval" where
  "formatExact rt dateString =
     (if \<not> truthy dateString then Str em_dash
      else
        (let d = new_Date rt dateString in
         if d = None then dateString else Str (render_timestamp rt d)))"

text \<open>\<open>formatDate\<close> of the fraud alerts page. Nothing in its \<open>try\<close> block raises on a JSON
  value, so the \<open>catch\<close> branch is never taken and an Invalid Date is rendered.\<close>

definition formatDate :: "runtime \<Rightarrow> jsval \<Rightarrow> jsval" where
  "formatDate rt ts =
     (if \<not> truthy ts then Str em_dash
      else Str (render_timestamp rt (new_Date rt ts)))"

text \<open>The fixed format as the specification words it: \<open>DD/MM/YYYY hh:mm:ss AM|PM\<close>, two
  digits each but for the year, the hour on the 12-hour clock with 12 for 0.\<close>

definition two_digits :: "nat \<Rightarrow> ustring" where
  "two_digits n = [48 + n div 10, 48 + n mod 10]"

definition hour12 :: "nat \<Rightarrow> nat" where
  "hour12 h = (if h mod 12 = 0 then 12 else h mod 12)"

definition fixed_format :: "ltime \<Rightarrow> ustring" where
  "fixed_format t =
     two_digits (day t) @ U ''/'' @ two_digits (month t + 1) @ U ''/'' @ int_to_string (year t)
     @ U '' '' @ two_digits (hour12 (hours t)) @ U '':'' @ two_digits (minutes t) @ U '':''
     @ two_digits (seconds t) @ U '' '' @ (if hours t < 12 then U ''AM'' else U ''PM'')"

section \<open>Aggregate fallback calculator\<close>

record buckets =
  Low :: nat
  Medium :: nat
  High :: nat

record docs =
  verified :: nat
  unverified :: nat

record aggregate =
  riskScore :: number
  riskBuckets :: buckets
  verifiedDocs :: docs

text \<open>\<open>Number(r?.fraud_result?.fraud_score || 0)\<close>\<close>

definition score_of :: "runtime \<Rightarrow> jsval \<Rightarrow> number" where
  "score_of rt r =
     to_Number rt
       (or_else (get_opt (get_opt r (U ''fraud_result'')) (U ''fraud_score'')) (Num (Fin 0)))"

text \<open>The callback of \<open>recordsList.forEach\<close>, on the two counters it updates.\<close>

definition tally :: "runtime \<Rightarrow> buckets \<times> docs \<Rightarrow> jsval \<Rightarrow> buckets \<times> docs" where
  "tally rt bv r =
     (let fs = score_of rt r;
          b = (if num_gt fs 70 then (fst bv)\<lparr>High := High (fst bv) + 1\<rparr>
               else if num_gt fs 30 then (fst bv)\<lparr>Medium := Medium (fst bv) + 1\<rparr>
               else (fst bv)\<lparr>Low := Low (fst bv) + 1\<rparr>);
          v = (if num_gt fs 30 then (snd bv)\<lparr>unverified := unverified (snd bv) + 1\<rparr>
               else (snd bv)\<lparr>verified := verified (snd bv) + 1\<rparr>)
      in (b, v))"

fun num_add :: "number \<Rightarrow> number \<Rightarrow> number" where
  "num_add (Fin a) (Fin b) = Fin (a + b)"
| "num_add a b = NaN"

text \<open>\<open>n / k\<close> for a count \<open>k > 0\<close>.\<close>

fun num_div :: "number \<Rightarrow> nat \<Rightarrow> number" where
  "num_div NaN k = NaN"
| "num_div (Fin q) k = Fin (q / of_nat k)"

definition computeFallback :: "runtime \<Rightarrow> jsval list \<Rightarrow> aggregate" where
  "computeFallback rt recordsList =
     (let bv = foldl (tally rt) (\<lparr>Low = 0, Medium = 0, High = 0\<rparr>, \<lparr>verified = 0, unverified = 0\<rparr>)
                 recordsList
      in \<lparr>riskScore =
            (if length recordsList \<noteq> 0
             then Math_round
                    (num_div (foldl (\<lambda>a b. num_add a (score_of rt b)) (Fin 0) recordsList)
                       (length recordsList))
             else Fin 0),
          riskBuckets = fst bv,
          verifiedDocs = snd bv\<rparr>)"

text \<open>\<open>a + b\<close> of the language: concatenation as soon as one side is a string, or an
  array or an object, which print as strings.\<close>

definition to_primitive :: "runtime \<Rightarrow> jsval \<Rightarrow> jsval" where
  "to_primitive rt v = (case v of Arr xs \<Rightarrow> Str (to_String rt v) | Obj kvs \<Rightarrow> Str (to_String rt v) | _ \<Rightarrow> v)"

definition js_plus :: "runtime \<Rightarrow> jsval \<Rightarrow> jsval \<Rightarrow> jsval" where
  "js_plus rt a b =
     (let pa = to_primitive rt a; pb = to_primitive rt b in
      if (\<exists>s. pa = Str s) \<or> (\<exists>s. pb = Str s) then Str (to_String rt pa @ to_String rt pb)
      else Num (num_add (to_Number rt pa) (to_Number rt pb)))"

text \<open>\<open>computeAvg\<close> of the fraud dashboard. Its \<open>reduce\<close> reads \<open>r.fraud_result.fraud_score\<close>
  without a guard.\<close>

fun computeAvg_sum :: "runtime \<Rightarrow> jsval \<Rightarrow> jsval list \<Rightarrow> error + jsval" where
  "computeAvg_sum rt acc [] = Inr acc"
| "computeAvg_sum rt acc (r # rs) =
     (if nullish r \<or> nullish (get r (U ''fraud_result'')) then Inl TypeError
      else computeAvg_sum rt
             (js_plus rt acc
                (or_else (get (get r (U ''fraud_result'')) (U ''fraud_score'')) (Num (Fin 0))))
             rs)"

definition computeAvg :: "runtime \<Rightarrow> jsval list \<Rightarrow> error + number" where
  "computeAvg rt records =
     (if length records = 0 then Inr (Fin 0)
      else
        (case computeAvg_sum rt (Num (Fin 0)) records of
           Inl e \<Rightarrow> Inl e
         | Inr sm \<Rightarrow> Inr (Math_round (num_div (to_Number rt sm) (length records)))))"

text \<open>The value of a number that is not \<open>NaN\<close>, and the mean of the scores of a list.\<close>

fun the_fin :: "number \<Rightarrow> rat" where
  "the_fin NaN = 0"
| "the_fin (Fin q) = q"

definition is_fin :: "number \<Rightarrow> bool" where
  "is_fin n = (n \<noteq> NaN)"

definition mean_score :: "runtime \<Rightarrow> jsval list \<Rightarrow> rat" where
  "mean_score rt rs = sum_list (map (\<lambda>r. the_fin (score_of rt r)) rs) / of_nat (length rs)"

text \<open>Records that carry a numeric fraud score, and the record with the score \<open>q\<close> alone.\<close>

definition has_score :: "jsval \<Rightarrow> bool" where
  "has_score r = (\<exists>q. get (get r (U ''fraud_result'')) (U ''fraud_score'') = Num (Fin q))"

definition score_record :: "rat \<Rightarrow> jsval" where
  "score_record q = Obj [(U ''fraud_result'', Obj [(U ''fraud_score'', Num (Fin q))])]"

section \<open>Approve, reject and flag on the in-memory record list\<close>

text \<open>
  \<open>a === b\<close>. Numbers, strings, booleans, \<open>null\<close> and \<open>undefined\<close> compare by value, and
  \<open>NaN\<close> equals nothing. Arrays and objects compare by reference, which a value does not
  carry: they are taken as distinct, and the properties below are about a primitive id.
\<close>

fun is_primitive :: "jsval \<Rightarrow> bool" where
  "is_primitive (Arr xs) = False"
| "is_primitive (Obj kvs) = False"
| "is_primitive v = True"

definition strict_eq :: "jsval \<Rightarrow> jsval \<Rightarrow> bool" where
  "strict_eq a b \<longleftrightarrow> is_primitive a \<and> a \<noteq> Num NaN \<and> a = b"

fun is_object :: "jsval \<Rightarrow> bool" where
  "is_object (Obj kvs) = True"
| "is_object v = False"

text \<open>The own enumerable properties that \<open>{...r}\<close> copies: the entries of an object, the
  indexed elements of an array or a string, nothing for the other values.\<close>

fun own_props :: "jsval \<Rightarrow> (ustring \<times> jsval) list" where
  "own_props (Obj kvs) = kvs"
| "own_props (Arr xs) = zip (map digits [0..<length xs]) xs"
| "own_props (Str s) = zip (map digits [0..<length s]) (map (\<lambda>c. Str [c]) s)"
| "own_props v = []"

text \<open>\<open>{ ...r, status: s }\<close>\<close>

definition with_status :: "jsval \<Rightarrow> ustring \<Rightarrow> jsval" where
  "with_status r s = Obj (AList.update (U ''status'') (Str s) (own_props r))"

text \<open>\<open>prev.map((r) => (r._id === id ? { ...r, status: s } : r))\<close>, the updater every action
  passes to the state setter. Reading \<open>_id\<close> of \<open>null\<close> or \<open>undefined\<close> raises.\<close>

fun map_status :: "jsval \<Rightarrow> ustring \<Rightarrow> jsval list \<Rightarrow> error + jsval list" where
  "map_status id' s [] = Inr []"
| "map_status id' s (r # rs) =
     (if nullish r then Inl TypeError
      else
        (case map_status id' s rs of
           Inl e \<Rightarrow> Inl e
         | Inr rs' \<Rightarrow>
             Inr ((if strict_eq (get r (U ''_id'')) id' then with_status r s else r) # rs')))"

text \<open>
  The actions, as functions from the record list to the next one. \<open>fetched\<close> says whether
  the awaited request resolved; when it did not, the state setter is not reached.
\<close>

definition doAction :: "bool \<Rightarrow> jsval \<Rightarrow> ustring \<Rightarrow> jsval list \<Rightarrow> error + jsval list" where
  "doAction fetched id' action prev =
     (if fetched then
        map_status id'
          (if action = U ''approve'' then U ''Approved''
           else if action = U ''reject'' then U ''Rejected'' else U ''Flagged'')
          prev
      else Inr prev)"

text \<open>\<open>onApprove\<close> and \<open>onReject\<close> of the KYC dashboard.\<close>

definition onApprove :: "bool \<Rightarrow> jsval \<Rightarrow> jsval list \<Rightarrow> error + jsval list" where
  "onApprove fetched id' prev = (if fetched then map_status id' (U ''Approved'') prev else Inr prev)"

definition onReject :: "bool \<Rightarrow> jsval \<Rightarrow> jsval list \<Rightarrow> error + jsval list" where
  "onReject fetched id' prev = (if fetched then map_status id' (U ''Rejected'') prev else Inr prev)"

text \<open>\<open>approve\<close> and \<open>reject\<close> of the admin dashboard.\<close>

definition approve :: "bool \<Rightarrow> jsval \<Rightarrow> jsval list \<Rightarrow> error + jsval list" where
  "approve fetched id' prev = (if fetched then map_status id' (U ''Approved'') prev else Inr prev)"

definition reject :: "bool \<Rightarrow> jsval \<Rightarrow> jsval list \<Rightarrow> error + jsval list" where
  "reject fetched id' prev = (if fetched then map_status id' (U ''Rejected'') prev else Inr prev)"

text \<open>What an update of the status of the records with the id \<open>id\<close> is: the list keeps its
  length; a record with another id is the same; a record with this id has the new status
  and every other field as before.\<close>

definition status_update :: "jsval \<Rightarrow> ustring \<Rightarrow> jsval list \<Rightarrow> jsval list \<Rightarrow> bool" where
  "status_update id' s prev nxt \<longleftrightarrow>
     length nxt = length prev
     \<and> (\<forall>i < length prev.
          if strict_eq (get (prev ! i) (U ''_id'')) id'
          then get (nxt ! i) (U ''status'') = Str s
               \<and> (\<forall>k. k \<noteq> U ''status'' \<longrightarrow> get (nxt ! i) k = get (prev ! i) k)
          else nxt ! i = prev ! i)"

section \<open>A runtime to evaluate the model on concrete inputs\<close>

text \<open>
  The theorems below hold for every runtime. Closed examples need one: this one lowers
  ASCII letters, reads unsigned decimal integers only (any other string is no number),
  prints nothing for a number that is not an integer, knows two dates, in a UTC local
  zone, and multiplies exactly, which is within the rounding to the nearest double. Its
  answers on the inputs evaluated with it are those of the language.
\<close>

definition ascii_lower :: "ustring \<Rightarrow> ustring" where
  "ascii_lower s = map (\<lambda>c. if 65 \<le> c \<and> c \<le> 90 then c + 32 else c) s"

definition decimal_value :: "ustring \<Rightarrow> nat" where
  "decimal_value s = foldl (\<lambda>a c. 10 * a + (c - 48)) 0 s"

definition sample_StringToNumber :: "ustring \<Rightarrow> number" where
  "sample_StringToNumber s =
     (let t = trim s in if list_all is_digit t then Fin (of_nat (decimal_value t)) else NaN)"

definition sample_parseFloat :: "ustring \<Rightarrow> number" where
  "sample_parseFloat s =
     (let d = takeWhile is_digit (dropWhile is_space s)
      in if d = [] then NaN else Fin (of_nat (decimal_value d)))"

definition sample_new_Date :: "jsval \<Rightarrow> ltime option" where
  "sample_new_Date v =
     (if v = Str (U ''2025-12-09T17:33:21'') then
        Some \<lparr>year = 2025, month = 11, day = 9, hours = 17, minutes = 33, seconds = 21\<rparr>
      else if v = Num (Fin 0) then
        Some \<lparr>year = 1970, month = 0, day = 1, hours = 0, minutes = 0, seconds = 0\<rparr>
      else None)"

definition sample_runtime :: runtime where
  "sample_runtime =
     \<lparr>toLowerCase = ascii_lower,
      StringToNumber = sample_StringToNumber,
      parseFloat = sample_parseFloat,
      NumberToString = (\<lambda>q. []),
      new_Date = sample_new_Date,
      fl_times = (\<lambda>a b. a * b)\<rparr>"

section \<open>Properties of the risk classifier\<close>

lemma U_inj: "U s = U t \<longleftrightarrow> s = t"
  unfolding U_def by (simp add: inj_on_def)

lemma bands_thresholds: "bands s (thresholds (Fin s))"
  by (simp add: bands_def thresholds_def U_inj)

lemma riskBadgeLabel_Fin: "fst (riskBadgeLabel rt (Num (Fin s))) = thresholds (Fin s)"
  by (simp add: riskBadgeLabel_def thresholds_def Let_def)

lemma formatRisk_Fin: "formatRisk rt (Num (Fin s)) = thresholds (Fin s)"
  by (simp add: formatRisk_def)

lemma KycRequests_risk_Fin:
  assumes "\<not> nullish r"
    and "get (or_else (get r (U ''fraud_result'')) (Obj [])) (U ''fraud_score'') = Num (Fin s)"
  shows "KycRequests_risk rt r = Inr (thresholds (Fin s))"
  using assms by (simp add: KycRequests_risk_def Let_def)

lemma FraudDashboard_risk_int:
  assumes "get (get r (U ''fraud_result'')) (U ''fraud_score'') = Num (Fin (of_int i))"
  shows "FraudDashboard_risk rt r = Inr (thresholds (Fin (of_int i)))"
proof -
  have fr: "\<not> nullish (get r (U ''fraud_result''))"
    using assms by (cases "get r (U ''fraud_result'')") auto
  have r: "\<not> nullish r"
    using fr by (cases r) auto
  have ge71: "(71::rat) \<le> of_int i \<longleftrightarrow> (70::rat) < of_int i"
  proof -
    have "(71::rat) \<le> of_int i \<longleftrightarrow> 71 \<le> i" by (metis of_int_le_iff of_int_numeral)
    moreover have "(70::rat) < of_int i \<longleftrightarrow> 70 < i" by (metis of_int_less_iff of_int_numeral)
    ultimately show ?thesis by linarith
  qed
  have ge31: "(31::rat) \<le> of_int i \<longleftrightarrow> (30::rat) < of_int i"
  proof -
    have "(31::rat) \<le> of_int i \<longleftrightarrow> 31 \<le> i" by (metis of_int_le_iff of_int_numeral)
    moreover have "(30::rat) < of_int i \<longleftrightarrow> 30 < i" by (metis of_int_less_iff of_int_numeral)
    ultimately show ?thesis by linarith
  qed
  show ?thesis
  proof (cases "i = 0")
    case True
    then show ?thesis
      using assms fr r by (simp add: FraudDashboard_risk_def or_else_def thresholds_def)
  next
    case False
    then show ?thesis
      using assms fr r ge71 ge31
      by (simp add: FraudDashboard_risk_def or_else_def thresholds_def)
  qed
qed

lemma score_record_fields:
  "get (get (score_record q) (U ''fraud_result'')) (U ''fraud_score'') = Num (Fin q)"
  "get (or_else (get (score_record q) (U ''fraud_result'')) (Obj [])) (U ''fraud_score'')
     = Num (Fin q)"
  "\<not> nullish (score_record q)"
  by (simp_all add: score_record_def or_else_def)

lemma KycRequests_risk_record:
  "KycRequests_risk rt (score_record s) = Inr (thresholds (Fin s))"
  by (rule KycRequests_risk_Fin) (rule score_record_fields)+

lemma FraudDashboard_risk_record:
  "FraudDashboard_risk rt (score_record (of_int i)) = Inr (thresholds (Fin (of_int i)))"
  by (rule FraudDashboard_risk_int) (rule score_record_fields)

lemma thresholds_boundaries:
  "thresholds (Fin 30) = U ''Low''" "thresholds (Fin 31) = U ''Medium''"
  "thresholds (Fin 70) = U ''Medium''" "thresholds (Fin 71) = U ''High''"
  by (simp_all add: thresholds_def)

text \<open>
  Claim C1. For every fraud score \<open>i\<close>, an integer as the data model has it, each site that
  classifies a fraud score (\<open>riskBadgeLabel\<close>, \<open>formatRisk\<close>, the row of the KYC requests
  list and the row of the fraud dashboard) returns High iff \<open>i > 70\<close>, Medium iff
  \<open>30 < i \<le> 70\<close> and Low iff \<open>i \<le> 30\<close>; at each of them 70 is Medium and 30 is Low (and 71
  is High, 31 is Medium). The first three sites return these bands for every rational
  score \<open>s\<close> as well.
\<close>

theorem risk_bands_all_sites:
  "bands (of_int i) (fst (riskBadgeLabel rt (Num (Fin (of_int i)))))
   \<and> bands (of_int i) (formatRisk rt (Num (Fin (of_int i))))
   \<and> (\<not> nullish r \<and>
        get (or_else (get r (U ''fraud_result'')) (Obj [])) (U ''fraud_score'')
          = Num (Fin (of_int i))
        \<longrightarrow> (\<exists>l. KycRequests_risk rt r = Inr l \<and> bands (of_int i) l))
   \<and> (get (get r (U ''fraud_result'')) (U ''fraud_score'') = Num (Fin (of_int i))
        \<longrightarrow> (\<exists>l. FraudDashboard_risk rt r = Inr l \<and> bands (of_int i) l))
   \<and> bands s (fst (riskBadgeLabel rt (Num (Fin s))))
   \<and> bands s (formatRisk rt (Num (Fin s)))
   \<and> (\<not> nullish r \<and>
        get (or_else (get r (U ''fraud_result'')) (Obj [])) (U ''fraud_score'') = Num (Fin s)
        \<longrightarrow> (\<exists>l. KycRequests_risk rt r = Inr l \<and> bands s l))
   \<and> fst (riskBadgeLabel rt (Num (Fin 70))) = U ''Medium''
   \<and> fst (riskBadgeLabel rt (Num (Fin 30))) = U ''Low''
   \<and> formatRisk rt (Num (Fin 70)) = U ''Medium''
   \<and> formatRisk rt (Num (Fin 30)) = U ''Low''
   \<and> KycRequests_risk rt (score_record 70) = Inr (U ''Medium'')
   \<and> KycRequests_risk rt (score_record 30) = Inr (U ''Low'')
   \<and> FraudDashboard_risk rt (score_record 70) = Inr (U ''Medium'')
   \<and> FraudDashboard_risk rt (score_record 30) = Inr (U ''Low'')
   \<and> FraudDashboard_risk rt (score_record 71) = Inr (U ''High'')
   \<and> FraudDashboard_risk rt (score_record 31) = Inr (U ''Medium'')"
proof -
  have a: "bands q (fst (riskBadgeLabel rt (Num (Fin q))))"
    "bands q (formatRisk rt (Num (Fin q)))" for q
    by (simp_all add: riskBadgeLabel_Fin formatRisk_Fin bands_thresholds)
  have k: "\<not> nullish r \<and>
        get (or_else (get r (U ''fraud_result'')) (Obj [])) (U ''fraud_score'') = Num (Fin q)
        \<longrightarrow> (\<exists>l. KycRequests_risk rt r = Inr l \<and> bands q l)" for q
    by (simp add: KycRequests_risk_Fin bands_thresholds)
  have d: "get (get r (U ''fraud_result'')) (U ''fraud_score'') = Num (Fin (of_int i))
        \<longrightarrow> (\<exists>l. FraudDashboard_risk rt r = Inr l \<and> bands (of_int i) l)"
    by (simp add: FraudDashboard_risk_int bands_thresholds)
  have b: "fst (riskBadgeLabel rt (Num (Fin 70))) = U ''Medium''"
    "fst (riskBadgeLabel rt (Num (Fin 30))) = U ''Low''"
    "formatRisk rt (Num (Fin 70)) = U ''Medium''"
    "formatRisk rt (Num (Fin 30)) = U ''Low''"
    "KycRequests_risk rt (score_record 70) = Inr (U ''Medium'')"
    "KycRequests_risk rt (score_record 30) = Inr (U ''Low'')"
    unfolding riskBadgeLabel_Fin formatRisk_Fin KycRequests_risk_record
    by (simp_all add: thresholds_boundaries)
  have f: "FraudDashboard_risk rt (score_record 70) = Inr (U ''Medium'')"
    "FraudDashboard_risk rt (score_record 30) = Inr (U ''Low'')"
    "FraudDashboard_risk rt (score_record 71) = Inr (U ''High'')"
    "FraudDashboard_risk rt (score_record 31) = Inr (U ''Medium'')"
    using FraudDashboard_risk_record [of rt 70] FraudDashboard_risk_record [of rt 30]
      FraudDashboard_risk_record [of rt 71] FraudDashboard_risk_record [of rt 31]
    by (simp_all add: thresholds_boundaries)
  from a [of "of_int i"] a [of s] k [of "of_int i"] k [of s] d b f show ?thesis
    by blast
qed

theorem risk_bands_all_sites_witness:
  "\<not> nullish (score_record 45)
   \<and> get (or_else (get (score_record 45) (U ''fraud_result'')) (Obj [])) (U ''fraud_score'')
       = Num (Fin (of_int 45))
   \<and> get (get (score_record 45) (U ''fraud_result'')) (U ''fraud_score'')
       = Num (Fin (of_int 45))
   \<and> fst (riskBadgeLabel sample_runtime (Num (Fin 45))) = U ''Medium''
   \<and> formatRisk sample_runtime (Num (Fin 45)) = U ''Medium''
   \<and> KycRequests_risk sample_runtime (score_record 45) = Inr (U ''Medium'')
   \<and> FraudDashboard_risk sample_runtime (score_record 45) = Inr (U ''Medium'')"
proof -
  note w = risk_bands_all_sites [where i = 45 and rt = sample_runtime and r = "score_record 45"
      and s = 45]
  have g: "get (or_else (get (score_record 45) (U ''fraud_result'')) (Obj [])) (U ''fraud_score'')
       = Num (Fin (of_int 45))"
    "get (get (score_record 45) (U ''fraud_result'')) (U ''fraud_score'')
       = Num (Fin (of_int 45))"
    "\<not> nullish (score_record 45)"
    using score_record_fields [of 45] by simp_all
  have m: "bands 45 l \<Longrightarrow> l = U ''Medium''" for l
    by (simp add: bands_def)
  have a: "fst (riskBadgeLabel sample_runtime (Num (Fin 45))) = U ''Medium''"
    using w by (intro m) simp
  have b: "formatRisk sample_runtime (Num (Fin 45)) = U ''Medium''"
    using w by (intro m) simp
  have "\<exists>l. KycRequests_risk sample_runtime (score_record 45) = Inr l \<and> bands (of_int 45) l"
    using w g by blast
  then have c: "KycRequests_risk sample_runtime (score_record 45) = Inr (U ''Medium'')"
    using m by auto
  have "\<exists>l. FraudDashboard_risk sample_runtime (score_record 45) = Inr l
        \<and> bands (of_int 45) l"
    using w g by blast
  then have d: "FraudDashboard_risk sample_runtime (score_record 45) = Inr (U ''Medium'')"
    using m by auto
  from g a b c d show ?thesis
    by blast
qed

section \<open>Properties of the confidence normalizer\<close>

lemma three_tier_Fin:
  "three_tier (Fin s) = Num (Fin (if 70 < s then 90 else if 30 < s then 75 else 60))"
  by (simp add: three_tier_def)

lemma extractConfidence_fallback:
  assumes "\<not> nullish r"
    and "nullish (confidence_candidate r) \<or> confidence_candidate r = Str []
         \<or> to_Number rt (confidence_candidate r) = NaN"
  shows "extractConfidence rt r = Inr (three_tier (fraud_score_of rt r))"
proof -
  have "nullish v \<longleftrightarrow> v = Null \<or> v = Undefined" for v
    by (cases v) auto
  then show ?thesis
    using assms by (auto simp add: extractConfidence_def Let_def)
qed

lemma extractConfidence_numeric:
  assumes "\<not> nullish r"
    and "\<not> nullish (confidence_candidate r)" and "confidence_candidate r \<noteq> Str []"
    and "to_Number rt (confidence_candidate r) = Fin q"
  shows "extractConfidence rt r =
     Inr (let q1 = (if 0 < q \<and> q \<le> 1 then fl_times rt q 100 else q);
              q2 = min 100 (max 0 q1)
          in if q2 \<le> 1 then three_tier (fraud_score_of rt r)
             else Num (Fin (of_int \<lfloor>q2 + 1 / 2\<rfloor>)))"
proof -
  have "confidence_candidate r \<noteq> Null" "confidence_candidate r \<noteq> Undefined"
    using assms(2) by auto
  then show ?thesis
    using assms by (auto simp add: extractConfidence_def Let_def min_def max_def)
qed

lemma round_nearest:
  fixes q :: rat
  shows "\<bar>of_int \<lfloor>q + 1 / 2\<rfloor> - q\<bar> \<le> 1 / 2"
  by linarith

text \<open>The rounded product of a confidence near 0.85 or near 0.005 with 100.\<close>

lemma product_near:
  assumes rn: "rounds_to_nearest rt" and lo: "1 / 4 \<le> c * 100" and hi: "c * 100 \<le> 128"
  shows "\<bar>fl_times rt c 100 - c * 100\<bar> \<le> 1 / 1000"
proof -
  have "(1::rat) / 2 ^ 1022 \<le> 1 / 2 ^ 2"
    by (intro divide_left_mono power_increasing) simp_all
  then have a: "1 / 2 ^ 1022 \<le> \<bar>c * 100\<bar>"
    using lo by simp
  have "(2::rat) ^ 8 \<le> 2 ^ 1023"
    by (intro power_increasing) simp_all
  then have b: "\<bar>c * 100\<bar> < 2 ^ 1023"
    using lo hi by simp
  have "\<bar>fl_times rt c 100 - c * 100\<bar> * 9007199254740992 \<le> \<bar>c * 100\<bar>"
    using rn a b unfolding rounds_to_nearest_def by blast
  then show ?thesis
    using lo hi by simp
qed

lemma confidence_field_only:
  "confidence_candidate (Obj [(U ''confidence'', Num (Fin c))]) = Num (Fin c)"
  "confidence_candidate (Obj [(U ''confidence'', Num (Fin c)), (U ''fraud_score'', v)])
     = Num (Fin c)"
  by (simp_all add: confidence_candidate_def fraud_of_def or_else_def coalesce_def U_inj)

lemma confidence_example_score_only:
  "extractConfidence rt (Obj [(U ''fraud_score'', Num (Fin 80))]) = Inr (Num (Fin 90))"
  by (simp add: extractConfidence_def confidence_candidate_def fraud_of_def or_else_def
      coalesce_def fraud_score_of_def three_tier_def U_inj)

lemma confidence_example_fraction:
  assumes rn: "rounds_to_nearest rt" and c: "\<bar>c - 85 / 100\<bar> \<le> 1 / 10 ^ 6"
  shows "extractConfidence rt (Obj [(U ''confidence'', Num (Fin c))]) = Inr (Num (Fin 85))"
proof -
  let ?r = "Obj [(U ''confidence'', Num (Fin c))]"
  let ?p = "fl_times rt c 100"
  have "\<bar>c - 85 / 100\<bar> \<le> 1 / 1000000"
    using c by simp
  then have cb: "849999 / 1000000 \<le> c \<and> c \<le> 850001 / 1000000"
    by linarith
  then have r01: "0 < c \<and> c \<le> 1"
    by simp
  have "\<bar>?p - c * 100\<bar> \<le> 1 / 1000"
    using cb by (intro product_near [OF rn]) simp_all
  then have pb: "8499 / 100 \<le> ?p \<and> ?p \<le> 8501 / 100"
    using cb by linarith
  then have cl: "min 100 (max 0 ?p) = ?p"
    by simp
  have fl: "\<lfloor>?p + 1 / 2\<rfloor> = 85"
    using pb by (simp add: floor_eq_iff)
  have "extractConfidence rt ?r =
     Inr (let q1 = (if 0 < c \<and> c \<le> 1 then ?p else c);
              q2 = min 100 (max 0 q1)
          in if q2 \<le> 1 then three_tier (fraud_score_of rt ?r)
             else Num (Fin (of_int \<lfloor>q2 + 1 / 2\<rfloor>)))"
    by (rule extractConfidence_numeric) (simp_all add: confidence_field_only)
  then show ?thesis
    using r01 pb by (simp add: Let_def cl fl)
qed

lemma confidence_example_degenerate:
  assumes rn: "rounds_to_nearest rt" and c: "\<bar>c - 5 / 1000\<bar> \<le> 1 / 10 ^ 6"
  shows "extractConfidence rt
     (Obj [(U ''confidence'', Num (Fin c)), (U ''fraud_score'', Num (Fin 80))])
   = Inr (Num (Fin 90))"
proof -
  let ?r = "Obj [(U ''confidence'', Num (Fin c)), (U ''fraud_score'', Num (Fin 80))]"
  let ?p = "fl_times rt c 100"
  have "\<bar>c - 5 / 1000\<bar> \<le> 1 / 1000000"
    using c by simp
  then have cb: "4999 / 1000000 \<le> c \<and> c \<le> 5001 / 1000000"
    by linarith
  then have r01: "0 < c \<and> c \<le> 1"
    by simp
  have "\<bar>?p - c * 100\<bar> \<le> 1 / 1000"
    using cb by (intro product_near [OF rn]) simp_all
  then have pb: "0 \<le> ?p \<and> ?p \<le> 1"
    using cb by linarith
  then have cl: "min 100 (max 0 ?p) = ?p"
    by simp
  have fs: "fraud_score_of rt ?r = Fin 80"
    by (simp add: fraud_score_of_def fraud_of_def or_else_def coalesce_def U_inj)
  have "extractConfidence rt ?r =
     Inr (let q1 = (if 0 < c \<and> c \<le> 1 then ?p else c);
              q2 = min 100 (max 0 q1)
          in if q2 \<le> 1 then three_tier (fraud_score_of rt ?r)
             else Num (Fin (of_int \<lfloor>q2 + 1 / 2\<rfloor>)))"
    by (rule extractConfidence_numeric) (simp_all add: confidence_field_only)
  then show ?thesis
    using r01 pb by (simp add: Let_def cl fs three_tier_def)
qed

text \<open>
  Claim C2. For every record (a value that is not \<open>null\<close> or \<open>undefined\<close>), with \<open>c\<close> the
  first alternate confidence field that is not \<open>null\<close> or \<open>undefined\<close>: when there is none,
  or \<open>c\<close> is the empty string or does not convert to a number, the result is the three-tier
  mapping of the fraud score (90 above 70, 75 above 30, else 60); when \<open>c\<close> converts to the
  number \<open>q\<close>, \<open>q\<close> is multiplied by 100 if \<open>0 < q \<le> 1\<close> (the product as the language rounds
  it), clamped to \<open>[0, 100]\<close>, and the result is the same three-tier mapping if the clamped
  value is at most 1, else the integer nearest to it. On a runtime whose products are
  rounded to the nearest double, the three examples of the specification give 90, 85 and
  90, whatever double the literals 0.85 and 0.005 denote within a millionth.
\<close>

theorem extractConfidence_spec:
  assumes "\<not> nullish r"
  shows "(nullish (confidence_candidate r) \<or> confidence_candidate r = Str []
            \<or> to_Number rt (confidence_candidate r) = NaN
          \<longrightarrow> extractConfidence rt r = Inr (three_tier (fraud_score_of rt r)))
     \<and> (\<forall>q. \<not> nullish (confidence_candidate r) \<and> confidence_candidate r \<noteq> Str []
            \<and> to_Number rt (confidence_candidate r) = Fin q
          \<longrightarrow> (let q1 = (if 0 < q \<and> q \<le> 1 then fl_times rt q 100 else q);
                   q2 = min 100 (max 0 q1)
               in extractConfidence rt r =
                    Inr (if q2 \<le> 1 then three_tier (fraud_score_of rt r)
                         else Num (Fin (of_int \<lfloor>q2 + 1 / 2\<rfloor>)))
                  \<and> \<bar>of_int \<lfloor>q2 + 1 / 2\<rfloor> - q2\<bar> \<le> 1 / 2))
     \<and> (\<forall>s. three_tier (Fin s) =
            Num (Fin (if 70 < s then 90 else if 30 < s then 75 else 60)))
     \<and> extractConfidence rt (Obj [(U ''fraud_score'', Num (Fin 80))]) = Inr (Num (Fin 90))
     \<and> (\<forall>c. rounds_to_nearest rt \<and> \<bar>c - 85 / 100\<bar> \<le> 1 / 10 ^ 6
          \<longrightarrow> extractConfidence rt (Obj [(U ''confidence'', Num (Fin c))])
                = Inr (Num (Fin 85)))
     \<and> (\<forall>c. rounds_to_nearest rt \<and> \<bar>c - 5 / 1000\<bar> \<le> 1 / 10 ^ 6
          \<longrightarrow> extractConfidence rt
                  (Obj [(U ''confidence'', Num (Fin c)), (U ''fraud_score'', Num (Fin 80))])
                = Inr (Num (Fin 90)))"
proof -
  have fb: "nullish (confidence_candidate r) \<or> confidence_candidate r = Str []
            \<or> to_Number rt (confidence_candidate r) = NaN
          \<longrightarrow> extractConfidence rt r = Inr (three_tier (fraud_score_of rt r))"
    using extractConfidence_fallback [OF assms] by blast
  have nm: "\<forall>q. \<not> nullish (confidence_candidate r) \<and> confidence_candidate r \<noteq> Str []
            \<and> to_Number rt (confidence_candidate r) = Fin q
          \<longrightarrow> (let q1 = (if 0 < q \<and> q \<le> 1 then fl_times rt q 100 else q);
                   q2 = min 100 (max 0 q1)
               in extractConfidence rt r =
                    Inr (if q2 \<le> 1 then three_tier (fraud_score_of rt r)
                         else Num (Fin (of_int \<lfloor>q2 + 1 / 2\<rfloor>)))
                  \<and> \<bar>of_int \<lfloor>q2 + 1 / 2\<rfloor> - q2\<bar> \<le> 1 / 2)"
  proof (intro allI impI)
    fix q
    assume h: "\<not> nullish (confidence_candidate r) \<and> confidence_candidate r \<noteq> Str []
            \<and> to_Number rt (confidence_candidate r) = Fin q"
    have "extractConfidence rt r =
       Inr (let q1 = (if 0 < q \<and> q \<le> 1 then fl_times rt q 100 else q);
                q2 = min 100 (max 0 q1)
            in if q2 \<le> 1 then three_tier (fraud_score_of rt r)
               else Num (Fin (of_int \<lfloor>q2 + 1 / 2\<rfloor>)))"
      using extractConfidence_numeric [OF assms, of rt q] h by blast
    then show "let q1 = (if 0 < q \<and> q \<le> 1 then fl_times rt q 100 else q);
                   q2 = min 100 (max 0 q1)
               in extractConfidence rt r =
                    Inr (if q2 \<le> 1 then three_tier (fraud_score_of rt r)
                         else Num (Fin (of_int \<lfloor>q2 + 1 / 2\<rfloor>)))
                  \<and> \<bar>of_int \<lfloor>q2 + 1 / 2\<rfloor> - q2\<bar> \<le> 1 / 2"
      unfolding Let_def using round_nearest by simp
  qed
  have e2: "\<forall>c. rounds_to_nearest rt \<and> \<bar>c - 85 / 100\<bar> \<le> 1 / 10 ^ 6
          \<longrightarrow> extractConfidence rt (Obj [(U ''confidence'', Num (Fin c))])
                = Inr (Num (Fin 85))"
    using confidence_example_fraction by blast
  have e3: "\<forall>c. rounds_to_nearest rt \<and> \<bar>c - 5 / 1000\<bar> \<le> 1 / 10 ^ 6
          \<longrightarrow> extractConfidence rt
                  (Obj [(U ''confidence'', Num (Fin c)), (U ''fraud_score'', Num (Fin 80))])
                = Inr (Num (Fin 90))"
    using confidence_example_degenerate by blast
  show ?thesis
    using fb nm three_tier_Fin confidence_example_score_only e2 e3
    by blast
qed

theorem extractConfidence_spec_witness:
  "\<not> nullish (Obj [(U ''fraud_result'', Obj [(U ''similarity'', Num (Fin (3 / 8)))])])
   \<and> extractConfidence sample_runtime
        (Obj [(U ''fraud_result'', Obj [(U ''similarity'', Num (Fin (3 / 8)))])])
      = Inr (Num (Fin 38))
   \<and> extractConfidence sample_runtime
        (Obj [(U ''fraud_result'', Obj [(U ''fraud_score'', Num (Fin 31))]),
              (U ''score'', Str (U ''n/a''))])
      = Inr (Num (Fin 75))
   \<and> rounds_to_nearest sample_runtime
   \<and> \<bar>7656119366529843 / 9007199254740992 - 85 / 100\<bar> \<le> (1::rat) / 10 ^ 6
   \<and> extractConfidence sample_runtime
        (Obj [(U ''confidence'', Num (Fin (7656119366529843 / 9007199254740992)))])
      = Inr (Num (Fin 85))"
proof -
  let ?a = "Obj [(U ''fraud_result'', Obj [(U ''similarity'', Num (Fin (3 / 8)))])]"
  let ?b = "Obj [(U ''fraud_result'', Obj [(U ''fraud_score'', Num (Fin 31))]),
                 (U ''score'', Str (U ''n/a''))]"
  let ?c = "Obj [(U ''confidence'', Num (Fin (7656119366529843 / 9007199254740992)))]"
  have ca: "confidence_candidate ?a = Num (Fin (3 / 8))"
    by (simp add: confidence_candidate_def fraud_of_def or_else_def coalesce_def U_inj)
  have cb: "confidence_candidate ?b = Str (U ''n/a'')"
    by (simp add: confidence_candidate_def fraud_of_def or_else_def coalesce_def U_inj)
  have nb: "to_Number sample_runtime (Str (U ''n/a'')) = NaN"
    by (simp add: sample_runtime_def sample_StringToNumber_def trim_def is_space_def
        is_digit_def U_def)
  have fb: "fraud_score_of sample_runtime ?b = Fin 31"
    by (simp add: fraud_score_of_def fraud_of_def or_else_def coalesce_def U_inj)
  have tm: "fl_times sample_runtime (3 / 8) 100 = 75 / 2"
    by (simp add: sample_runtime_def)
  have na: "\<not> nullish ?a" and nc: "\<not> nullish ?c"
    by simp_all
  have a: "extractConfidence sample_runtime ?a = Inr (Num (Fin 38))"
    using extractConfidence_spec [OF na, of sample_runtime, THEN conjunct2, THEN conjunct1,
        THEN spec [where x = "3 / 8"]] ca
    by (simp add: Let_def tm floor_eq_iff)
  have b: "extractConfidence sample_runtime ?b = Inr (Num (Fin 75))"
    using extractConfidence_spec [of ?b sample_runtime] cb nb fb
    by (simp add: three_tier_def)
  have rn: "rounds_to_nearest sample_runtime"
    by (simp add: rounds_to_nearest_def sample_runtime_def)
  have d: "\<bar>7656119366529843 / 9007199254740992 - 85 / 100\<bar> \<le> (1::rat) / 10 ^ 6"
    by simp
  have "\<forall>c. rounds_to_nearest sample_runtime \<and> \<bar>c - 85 / 100\<bar> \<le> 1 / 10 ^ 6
          \<longrightarrow> extractConfidence sample_runtime (Obj [(U ''confidence'', Num (Fin c))])
                = Inr (Num (Fin 85))"
    using extractConfidence_spec [OF nc, of sample_runtime] by blast
  then have c: "extractConfidence sample_runtime ?c = Inr (Num (Fin 85))"
    using rn d by blast
  from na a b rn d c show ?thesis
    by blast
qed

section \<open>Properties of the reason builder\<close>

lemma U_Nil: "U s = [] \<longleftrightarrow> s = []" "[] = U s \<longleftrightarrow> s = []"
  by (auto simp add: U_def)

lemma add_fresh: "msg \<noteq> [] \<Longrightarrow> msg \<notin> set rs \<Longrightarrow> add msg rs = rs @ [msg]"
  by (simp add: add_def)

lemma flag_reasons_recognized: "flag_reasons flags = recognized flags"
  unfolding flag_reasons_def recognized_def code_sentences_def Let_def
  by (cases "U ''duplicate_submission'' \<in> set flags";
      cases "U ''name_mismatch'' \<in> set flags";
      cases "U ''duplicate_aadhaar'' \<in> set flags";
      cases "U ''duplicate_pan'' \<in> set flags";
      cases "U ''aadhaar_pan_duplicate'' \<in> set flags";
      simp add: add_fresh U_inj U_Nil)

lemma trim_Nil [simp]: "trim [] = []"
  by (simp add: trim_def)

lemma join_nonempty: "xs \<noteq> [] \<Longrightarrow> hd xs \<noteq> [] \<Longrightarrow> join sep xs \<noteq> []"
  by (induction sep xs rule: join.induct) auto

lemma recognized_subset: "set (recognized flags) \<subseteq> snd ` set code_sentences"
  by (auto simp add: recognized_def)

lemma recognized_nonempty: "m \<in> set (recognized flags) \<Longrightarrow> m \<noteq> []"
proof -
  have "m \<in> snd ` set code_sentences \<Longrightarrow> m \<noteq> []"
    by (auto simp add: code_sentences_def U_Nil)
  then show "m \<in> set (recognized flags) \<Longrightarrow> m \<noteq> []"
    using recognized_subset by blast
qed

lemma recognized_distinct: "distinct (recognized flags)"
  unfolding recognized_def code_sentences_def
  by (rule distinct_map_filter) (simp add: U_inj)

text \<open>The source's reading of the record agrees with the specification's.\<close>

lemma fraud_of_payload: "fraud_of r = payload r"
  by (simp add: fraud_of_def or_else_def payload_def)

lemma flags_raw_first_truthy: "flags_raw r = first_truthy (flag_fields r)"
  by (simp add: flags_raw_def flag_fields_def or_else_def fraud_of_payload Let_def)

lemma flag_codes_spec: "flag_codes rt r = spec_codes rt r"
  by (cases "first_truthy (flag_fields r)")
    (simp_all add: flag_codes_def spec_codes_def flags_raw_first_truthy comp_def)

lemma text_nonblank: "(if is_text x then [str_of x] else []) = nonblank x"
  by (cases x) (simp_all add: is_text_def str_of_def nonblank_def)

lemma texts_nonblank: "map str_of (filter is_text xs) = concat (map nonblank xs)"
proof (induction xs)
  case Nil
  then show ?case by simp
next
  case (Cons x xs)
  have "map str_of (filter is_text (x # xs))
      = (if is_text x then [str_of x] else []) @ map str_of (filter is_text xs)"
    by simp
  then show ?case
    unfolding Cons.IH text_nonblank by simp
qed

lemma reason_texts_spec: "reason_texts r = spec_texts r"
  unfolding reason_texts_def spec_texts_def Let_def texts_nonblank fraud_of_payload
  by (simp add: text_fields_def)

lemma nonblank_nonempty: "t \<in> set (nonblank v) \<Longrightarrow> t \<noteq> []"
  by (cases v) (auto simp add: nonblank_def split: if_splits)

lemma spec_texts_nonempty: "t \<in> set (spec_texts r) \<Longrightarrow> t \<noteq> []"
  using nonblank_nonempty by (auto simp add: spec_texts_def)

lemma reason_spec_nonempty: "reason_spec rt r \<noteq> []"
proof -
  have a: "recognized fl \<noteq> [] \<Longrightarrow> join (U '', '') (recognized fl) \<noteq> []" for fl
    using recognized_nonempty [of "hd (recognized fl)" fl]
      join_nonempty [of "recognized fl" "U '', ''"] by auto
  have b: "spec_texts r \<noteq> [] \<Longrightarrow> join (U '', '') (spec_texts r) \<noteq> []"
    using spec_texts_nonempty [of "hd (spec_texts r)" r]
      join_nonempty [of "spec_texts r" "U '', ''"] by auto
  have c: "default_reason \<noteq> []"
    by (simp add: default_reason_def U_Nil)
  show ?thesis
    using a b c by (simp add: reason_spec_def Let_def)
qed

lemma reason_from_flags_spec:
  "reason_from_flags rt r =
     (if recognized (spec_codes rt r) \<noteq> [] then join (U '', '') (recognized (spec_codes rt r))
      else if spec_texts r \<noteq> [] then join (U '', '') (spec_texts r)
      else default_reason)"
  by (simp add: reason_from_flags_def flag_reasons_recognized flag_codes_spec
      reason_texts_spec default_reason_def Let_def)

lemma buildRiskReason_refines:
  assumes "\<not> nullish r"
    and "\<not> truthy (get (payload r) (U ''flags_text''))
         \<or> (\<exists>s. get (payload r) (U ''flags_text'') = Str s)"
  shows "buildRiskReason rt r = Inr (Str (reason_spec rt r))"
proof (cases "\<exists>s. get (payload r) (U ''flags_text'') = Str s")
  case True
  then obtain s where s: "get (payload r) (U ''flags_text'') = Str s"
    by blast
  have "trim s \<noteq> [] \<Longrightarrow> s \<noteq> []"
    by auto
  then show ?thesis
    using assms(1) s
    by (simp add: buildRiskReason_def fraud_of_payload reason_spec_def reason_from_flags_spec
        is_risk_label_def Let_def)
next
  case False
  then have nt: "\<not> truthy (get (payload r) (U ''flags_text''))"
    using assms(2) by blast
  have so: "(case get (payload r) (U ''flags_text'') of Str s \<Rightarrow> trim s | _ \<Rightarrow> []) = []"
    using False by (cases "get (payload r) (U ''flags_text'')") auto
  have "buildRiskReason rt r = Inr (Str (reason_from_flags rt r))"
    using assms(1) nt False
    by (cases "get (payload r) (U ''flags_text'')")
      (simp_all add: buildRiskReason_def fraud_of_payload)
  then show ?thesis
    by (simp add: reason_spec_def reason_from_flags_spec so Let_def)
qed

text \<open>
  Claim C3. For every record whose \<open>flags_text\<close> is a string or is missing, the reason
  builder returns the reason of the precedence above: (1) the trimmed \<open>flags_text\<close> when it
  is not empty and its lowered content is not \<open>low\<close>, \<open>medium\<close> or \<open>high\<close>; (2) otherwise
  the sentences of the recognized flag codes, each at most once, joined with a comma and a
  space in the order of the table, unknown codes dropped; (3) otherwise the free-text
  fields that are not blank, joined the same way; (4) otherwise the default. The result
  is never the empty string.
\<close>

theorem buildRiskReason_precedence:
  assumes "\<not> nullish r"
    and "\<not> truthy (get (payload r) (U ''flags_text''))
         \<or> (\<exists>s. get (payload r) (U ''flags_text'') = Str s)"
  shows "buildRiskReason rt r = Inr (Str (reason_spec rt r))
     \<and> reason_spec rt r \<noteq> []
     \<and> distinct (recognized (spec_codes rt r))"
  using buildRiskReason_refines [OF assms] reason_spec_nonempty recognized_distinct
  by blast

text \<open>Four records, one for each step of the precedence, on the sample runtime.\<close>

lemma sample_lower:
  "toLowerCase sample_runtime (U ''Suspicious velocity'') = U ''suspicious velocity''"
  "toLowerCase sample_runtime (U ''High'') = U ''high''"
  "toLowerCase sample_runtime (U ''low'') = U ''low''"
  "toLowerCase sample_runtime (U ''Duplicate_PAN'') = U ''duplicate_pan''"
  "toLowerCase sample_runtime (U ''velocity'') = U ''velocity''"
  "toLowerCase sample_runtime (U ''duplicate_pan'') = U ''duplicate_pan''"
  "toLowerCase sample_runtime (U ''name_mismatch'') = U ''name_mismatch''"
  by (simp_all add: sample_runtime_def ascii_lower_def U_def)

lemma sample_trim:
  "trim (U '' Suspicious velocity '') = U ''Suspicious velocity''"
  "trim (U '' High '') = U ''High''"
  "trim (U ''low'') = U ''low''"
  "trim (U ''  '') = []"
  "trim (U ''Manual review'') \<noteq> []"
  "trim (U ''seen before'') \<noteq> []"
  by (simp_all add: trim_def U_def is_space_def)

lemma step1_reason:
  "reason_spec sample_runtime
     (Obj [(U ''fraud_result'',
        Obj [(U ''flags_text'', Str (U '' Suspicious velocity '')),
             (U ''flags'', Arr [Str (U ''duplicate_pan'')])])])
   = U ''Suspicious velocity''"
  by (simp add: reason_spec_def payload_def is_risk_label_def sample_trim sample_lower
      U_inj U_Nil Let_def)

lemma step2_reason:
  "reason_spec sample_runtime
     (Obj [(U ''fraud_result'',
        Obj [(U ''flags_text'', Str (U '' High '')),
             (U ''flags'', Arr [Str (U ''Duplicate_PAN''), Str (U ''velocity''),
                               Str (U ''duplicate_pan''), Str (U ''name_mismatch'')])]),
      (U ''notes'', Str (U ''seen before''))])
   = U ''Name on document does not closely match user input, Duplicate PAN detected''"
proof -
  let ?r = "Obj [(U ''fraud_result'',
        Obj [(U ''flags_text'', Str (U '' High '')),
             (U ''flags'', Arr [Str (U ''Duplicate_PAN''), Str (U ''velocity''),
                               Str (U ''duplicate_pan''), Str (U ''name_mismatch'')])]),
      (U ''notes'', Str (U ''seen before''))]"
  have p: "payload ?r = Obj [(U ''flags_text'', Str (U '' High '')),
             (U ''flags'', Arr [Str (U ''Duplicate_PAN''), Str (U ''velocity''),
                               Str (U ''duplicate_pan''), Str (U ''name_mismatch'')])]"
    by (simp add: payload_def)
  have fc: "spec_codes sample_runtime ?r
      = [U ''duplicate_pan'', U ''velocity'', U ''duplicate_pan'', U ''name_mismatch'']"
    unfolding spec_codes_def flag_fields_def p by (simp add: sample_lower U_inj)
  have rc: "recognized [U ''duplicate_pan'', U ''velocity'', U ''duplicate_pan'', U ''name_mismatch'']
      = [U ''Name on document does not closely match user input'', U ''Duplicate PAN detected'']"
    by (simp add: recognized_def code_sentences_def U_inj)
  have jn: "join (U '', '')
        [U ''Name on document does not closely match user input'', U ''Duplicate PAN detected'']
      = U ''Name on document does not closely match user input, Duplicate PAN detected''"
    by (simp add: U_def)
  show ?thesis
    unfolding reason_spec_def p fc rc jn Let_def
    by (simp add: is_risk_label_def sample_trim sample_lower U_inj)
qed

lemma step3_reason:
  "reason_spec sample_runtime
     (Obj [(U ''fraud_result'',
        Obj [(U ''flags_text'', Str (U ''low'')), (U ''flags'', Arr [Str (U ''velocity'')]),
             (U ''reason'', Str (U ''  '')), (U ''message'', Str (U ''Manual review''))]),
      (U ''description'', Num (Fin 5)), (U ''notes'', Str (U ''seen before''))])
   = U ''Manual review, seen before''"
proof -
  let ?r = "Obj [(U ''fraud_result'',
        Obj [(U ''flags_text'', Str (U ''low'')), (U ''flags'', Arr [Str (U ''velocity'')]),
             (U ''reason'', Str (U ''  '')), (U ''message'', Str (U ''Manual review''))]),
      (U ''description'', Num (Fin 5)), (U ''notes'', Str (U ''seen before''))]"
  have p: "payload ?r =
        Obj [(U ''flags_text'', Str (U ''low'')), (U ''flags'', Arr [Str (U ''velocity'')]),
             (U ''reason'', Str (U ''  '')), (U ''message'', Str (U ''Manual review''))]"
    by (simp add: payload_def)
  have fc: "spec_codes sample_runtime ?r = [U ''velocity'']"
    unfolding spec_codes_def flag_fields_def p by (simp add: sample_lower U_inj)
  have rc: "recognized [U ''velocity''] = []"
    by (simp add: recognized_def code_sentences_def U_inj)
  have tx: "spec_texts ?r = [U ''Manual review'', U ''seen before'']"
    unfolding spec_texts_def text_fields_def p
    by (simp add: nonblank_def sample_trim U_inj)
  have jn: "join (U '', '') [U ''Manual review'', U ''seen before'']
      = U ''Manual review, seen before''"
    by (simp add: U_def)
  show ?thesis
    unfolding reason_spec_def p fc rc tx jn Let_def
    by (simp add: is_risk_label_def sample_trim sample_lower U_inj)
qed

lemma step4_reason:
  "reason_spec sample_runtime (Obj [(U ''user_name'', Str (U ''Asha''))])
   = U ''No anomalies detected for this KYC submission''"
  by (simp add: reason_spec_def payload_def spec_codes_def flag_fields_def recognized_def
      spec_texts_def text_fields_def nonblank_def default_reason_def U_inj Let_def)

theorem buildRiskReason_precedence_witness:
  "buildRiskReason sample_runtime
     (Obj [(U ''fraud_result'',
        Obj [(U ''flags_text'', Str (U '' Suspicious velocity '')),
             (U ''flags'', Arr [Str (U ''duplicate_pan'')])])])
     = Inr (Str (U ''Suspicious velocity''))
   \<and> buildRiskReason sample_runtime
       (Obj [(U ''fraud_result'',
        Obj [(U ''flags_text'', Str (U '' High '')),
             (U ''flags'', Arr [Str (U ''Duplicate_PAN''), Str (U ''velocity''),
                               Str (U ''duplicate_pan''), Str (U ''name_mismatch'')])]),
      (U ''notes'', Str (U ''seen before''))])
     = Inr (Str (U ''Name on document does not closely match user input, Duplicate PAN detected''))
   \<and> buildRiskReason sample_runtime
       (Obj [(U ''fraud_result'',
        Obj [(U ''flags_text'', Str (U ''low'')), (U ''flags'', Arr [Str (U ''velocity'')]),
             (U ''reason'', Str (U ''  '')), (U ''message'', Str (U ''Manual review''))]),
      (U ''description'', Num (Fin 5)), (U ''notes'', Str (U ''seen before''))])
     = Inr (Str (U ''Manual review, seen before''))
   \<and> buildRiskReason sample_runtime (Obj [(U ''user_name'', Str (U ''Asha''))])
     = Inr (Str (U ''No anomalies detected for this KYC submission''))"
proof -
  let ?r1 = "Obj [(U ''fraud_result'',
        Obj [(U ''flags_text'', Str (U '' Suspicious velocity '')),
             (U ''flags'', Arr [Str (U ''duplicate_pan'')])])]"
  let ?r2 = "Obj [(U ''fraud_result'',
        Obj [(U ''flags_text'', Str (U '' High '')),
             (U ''flags'', Arr [Str (U ''Duplicate_PAN''), Str (U ''velocity''),
                               Str (U ''duplicate_pan''), Str (U ''name_mismatch'')])]),
      (U ''notes'', Str (U ''seen before''))]"
  let ?r3 = "Obj [(U ''fraud_result'',
        Obj [(U ''flags_text'', Str (U ''low'')), (U ''flags'', Arr [Str (U ''velocity'')]),
             (U ''reason'', Str (U ''  '')), (U ''message'', Str (U ''Manual review''))]),
      (U ''description'', Num (Fin 5)), (U ''notes'', Str (U ''seen before''))]"
  let ?r4 = "Obj [(U ''user_name'', Str (U ''Asha''))]"
  have n: "\<not> nullish ?r1" "\<not> nullish ?r2" "\<not> nullish ?r3" "\<not> nullish ?r4"
    by simp_all
  have t1: "\<not> truthy (get (payload ?r1) (U ''flags_text''))
         \<or> (\<exists>s. get (payload ?r1) (U ''flags_text'') = Str s)"
    by (simp add: payload_def)
  have t2: "\<not> truthy (get (payload ?r2) (U ''flags_text''))
         \<or> (\<exists>s. get (payload ?r2) (U ''flags_text'') = Str s)"
    by (simp add: payload_def)
  have t3: "\<not> truthy (get (payload ?r3) (U ''flags_text''))
         \<or> (\<exists>s. get (payload ?r3) (U ''flags_text'') = Str s)"
    by (simp add: payload_def)
  have t4: "\<not> truthy (get (payload ?r4) (U ''flags_text''))
         \<or> (\<exists>s. get (payload ?r4) (U ''flags_text'') = Str s)"
    by (simp add: payload_def U_inj)
  have a: "buildRiskReason sample_runtime ?r1 = Inr (Str (U ''Suspicious velocity''))"
    using buildRiskReason_precedence [OF n(1) t1, of sample_runtime]
    unfolding step1_reason by blast
  have b: "buildRiskReason sample_runtime ?r2
      = Inr (Str (U ''Name on document does not closely match user input, Duplicate PAN detected''))"
    using buildRiskReason_precedence [OF n(2) t2, of sample_runtime]
    unfolding step2_reason by blast
  have c: "buildRiskReason sample_runtime ?r3 = Inr (Str (U ''Manual review, seen before''))"
    using buildRiskReason_precedence [OF n(3) t3, of sample_runtime]
    unfolding step3_reason by blast
  have d: "buildRiskReason sample_runtime ?r4
      = Inr (Str (U ''No anomalies detected for this KYC submission''))"
    using buildRiskReason_precedence [OF n(4) t4, of sample_runtime]
    unfolding step4_reason by blast
  from a b c d show ?thesis
    by blast
qed

section \<open>Properties of the identifier maskers\<close>

lemma exposes_only_masked:
  assumes "list_all is_mask mid"
  shows "exposes_only f b s (take f s @ mid @ lastn b s)"
  using assms by (simp add: exposes_only_def Let_def)

lemma mask_literals: "list_all is_mask (U ''-XXXX-'')" "list_all is_mask (U ''-XX'')"
  by (simp_all add: U_def is_mask_def)

lemma length_mask_literals: "length (U ''-XXXX-'') = 6" "length (U ''-XX'') = 3"
  by (simp_all add: U_def)

lemma maskAadhaar_example_masked:
  "maskAadhaar rt (Str (U ''123456789012'')) = Str (U ''1234-XXXX-9012'')"
  by (simp add: maskAadhaar_def U_def is_digit_def lastn_def)

lemma maskAadhaar_example_short:
  "maskAadhaar rt (Str (U ''1234567'')) = Str (U ''1234567'')"
  by (simp add: maskAadhaar_def U_def is_digit_def lastn_def)

lemma maskPan_example_masked:
  "maskPan rt (Str (U ''ABCDE1234F'')) = Str (U ''ABCDE-XX4F'')"
  by (simp add: maskPan_def U_def is_space_def lastn_def)

lemma maskPan_example_short:
  "maskPan rt (Str (U ''ABC123'')) = Str (U ''ABC123'')"
  by (simp add: maskPan_def U_def is_space_def lastn_def)

text \<open>
  Claim C4. On an identifier, that is an input that is not falsy (for a string: not
  empty), \<open>maskAadhaar\<close> keeps the decimal digits and returns the input unmodified if fewer
  than 8 remain, else the first four digits, \<open>-XXXX-\<close> and the last four (14 characters);
  \<open>maskPan\<close> removes white space and returns the input unmodified unless exactly 10
  characters remain, else the first five, \<open>-XX\<close> and the last two (10 characters). An
  empty or missing input gives the placeholder \<open>-\<close> of this call site, the edge case of the
  same section of the specification. The four examples of the specification hold.
\<close>

theorem maskers_spec:
  "(truthy n \<longrightarrow>
      maskAadhaar rt n =
        (let d = filter is_digit (to_String rt n) in
         if length d < 8 then n else Str (take 4 d @ U ''-XXXX-'' @ lastn 4 d))
      \<and> maskPan rt n =
        (let s = filter (\<lambda>c. \<not> is_space c) (to_String rt n) in
         if length s \<noteq> 10 then n else Str (take 5 s @ U ''-XX'' @ lastn 2 s)))
   \<and> (truthy n \<and> 8 \<le> length (filter is_digit (to_String rt n))
        \<longrightarrow> (\<exists>out. maskAadhaar rt n = Str out \<and> length out = 14))
   \<and> (truthy n \<and> length (filter (\<lambda>c. \<not> is_space c) (to_String rt n)) = 10
        \<longrightarrow> (\<exists>out. maskPan rt n = Str out \<and> length out = 10))
   \<and> (\<not> truthy n \<longrightarrow> maskAadhaar rt n = Str (U ''-'') \<and> maskPan rt n = Str (U ''-''))
   \<and> maskAadhaar rt (Str (U ''123456789012'')) = Str (U ''1234-XXXX-9012'')
   \<and> maskAadhaar rt (Str (U ''1234567'')) = Str (U ''1234567'')
   \<and> maskPan rt (Str (U ''ABCDE1234F'')) = Str (U ''ABCDE-XX4F'')
   \<and> maskPan rt (Str (U ''ABC123'')) = Str (U ''ABC123'')"
proof -
  have a: "truthy n \<longrightarrow>
      maskAadhaar rt n =
        (let d = filter is_digit (to_String rt n) in
         if length d < 8 then n else Str (take 4 d @ U ''-XXXX-'' @ lastn 4 d))
      \<and> maskPan rt n =
        (let s = filter (\<lambda>c. \<not> is_space c) (to_String rt n) in
         if length s \<noteq> 10 then n else Str (take 5 s @ U ''-XX'' @ lastn 2 s))"
    by (simp add: maskAadhaar_def maskPan_def)
  have b: "truthy n \<and> 8 \<le> length (filter is_digit (to_String rt n))
        \<longrightarrow> (\<exists>out. maskAadhaar rt n = Str out \<and> length out = 14)"
    by (simp add: maskAadhaar_def Let_def lastn_def length_mask_literals)
  have c: "truthy n \<and> length (filter (\<lambda>c. \<not> is_space c) (to_String rt n)) = 10
        \<longrightarrow> (\<exists>out. maskPan rt n = Str out \<and> length out = 10)"
    by (simp add: maskPan_def Let_def lastn_def length_mask_literals)
  have d: "\<not> truthy n \<longrightarrow> maskAadhaar rt n = Str (U ''-'') \<and> maskPan rt n = Str (U ''-'')"
    by (simp add: maskAadhaar_def maskPan_def)
  show ?thesis
    using a b c d maskAadhaar_example_masked maskAadhaar_example_short
      maskPan_example_masked maskPan_example_short
    by blast
qed

theorem maskers_spec_witness:
  "truthy (Str (U ''1234 5678 9012''))
   \<and> maskAadhaar sample_runtime (Str (U ''1234 5678 9012'')) = Str (U ''1234-XXXX-9012'')
   \<and> truthy (Str (U ''abcde 1234f''))
   \<and> maskPan sample_runtime (Str (U ''abcde 1234f'')) = Str (U ''abcde-XX4f'')
   \<and> \<not> truthy Null
   \<and> maskAadhaar sample_runtime Null = Str (U ''-'')"
proof -
  have ta: "truthy (Str (U ''1234 5678 9012''))" and tp: "truthy (Str (U ''abcde 1234f''))"
    by (simp_all add: U_def)
  have da: "filter is_digit (to_String sample_runtime (Str (U ''1234 5678 9012'')))
      = U ''123456789012''"
    by (simp add: U_def is_digit_def)
  have dp: "filter (\<lambda>c. \<not> is_space c) (to_String sample_runtime (Str (U ''abcde 1234f'')))
      = U ''abcde1234f''"
    by (simp add: U_def is_space_def)
  have ea: "take 4 (U ''123456789012'') @ U ''-XXXX-'' @ lastn 4 (U ''123456789012'')
      = U ''1234-XXXX-9012''"
    by (simp add: U_def lastn_def)
  have ep: "take 5 (U ''abcde1234f'') @ U ''-XX'' @ lastn 2 (U ''abcde1234f'') = U ''abcde-XX4f''"
    by (simp add: U_def lastn_def)
  have la: "length (U ''123456789012'') = 12" and lp: "length (U ''abcde1234f'') = 10"
    by (simp_all add: U_def)
  have a: "maskAadhaar sample_runtime (Str (U ''1234 5678 9012'')) = Str (U ''1234-XXXX-9012'')"
    using maskers_spec [of "Str (U ''1234 5678 9012'')" sample_runtime] ta
    unfolding da Let_def by (simp add: la ea)
  have p: "maskPan sample_runtime (Str (U ''abcde 1234f'')) = Str (U ''abcde-XX4f'')"
    using maskers_spec [of "Str (U ''abcde 1234f'')" sample_runtime] tp
    unfolding dp Let_def by (simp add: lp ep)
  have z: "maskAadhaar sample_runtime Null = Str (U ''-'')"
    using maskers_spec [of Null sample_runtime] by simp
  from ta tp a p z show ?thesis by simp
qed

lemma maskNumber_exposes:
  assumes "truthy n"
  shows "exposes_only f b (filter (\<lambda>c. \<not> is_space c) (to_String rt n)) (maskNumber rt n f b)"
proof -
  let ?s = "filter (\<lambda>c. \<not> is_space c) (to_String rt n)"
  show ?thesis
  proof (cases "length ?s \<le> f + b")
    case True
    then show ?thesis
      using assms by (simp add: maskNumber_def exposes_only_def)
  next
    case False
    have "list_all is_mask (replicate (length ?s - f - b) 88)"
      by (simp add: list_all_iff is_mask_def)
    then have "exposes_only f b ?s (take f ?s @ replicate (length ?s - f - b) 88 @ lastn b ?s)"
      by (rule exposes_only_masked)
    then show ?thesis
      using assms False by (simp add: maskNumber_def lastn_def Let_def)
  qed
qed

lemma maskNumber_length:
  assumes "truthy n"
  shows "length (maskNumber rt n f b) = length (filter (\<lambda>c. \<not> is_space c) (to_String rt n))"
  using assms by (simp add: maskNumber_def Let_def)

text \<open>
  Claim C5, as the code has it. On an input that is not falsy: \<open>maskAadhaarUI\<close> and
  \<open>maskPanUI\<close> show only the first 4 (5) and the last 4 (2) characters of the printed
  input around mask characters; \<open>maskNumber\<close> shows only the first and last characters it is
  asked to keep of the input without its white space, and its output is as long as that
  input, one mask character for each hidden character; \<open>maskAadhaar\<close> shows only the first
  and last four digits when at least 8 digits remain, and \<open>maskPan\<close> only the first five
  and last two characters when exactly 10 remain. Otherwise \<open>maskAadhaar\<close> and \<open>maskPan\<close>
  return the input whole.
\<close>

theorem maskers_expose_only:
  assumes "truthy n"
  shows "exposes_only 4 4 (to_String rt n) (maskAadhaarUI rt n)
     \<and> exposes_only 5 2 (to_String rt n) (maskPanUI rt n)
     \<and> exposes_only f b (filter (\<lambda>c. \<not> is_space c) (to_String rt n)) (maskNumber rt n f b)
     \<and> (8 \<le> length (filter is_digit (to_String rt n))
          \<longrightarrow> (\<exists>out. maskAadhaar rt n = Str out
                 \<and> exposes_only 4 4 (filter is_digit (to_String rt n)) out))
     \<and> (length (filter (\<lambda>c. \<not> is_space c) (to_String rt n)) = 10
          \<longrightarrow> (\<exists>out. maskPan rt n = Str out
                 \<and> exposes_only 5 2 (filter (\<lambda>c. \<not> is_space c) (to_String rt n)) out))
     \<and> (length (filter is_digit (to_String rt n)) < 8 \<longrightarrow> maskAadhaar rt n = n)
     \<and> (length (filter (\<lambda>c. \<not> is_space c) (to_String rt n)) \<noteq> 10 \<longrightarrow> maskPan rt n = n)
     \<and> length (maskNumber rt n f b)
         = length (filter (\<lambda>c. \<not> is_space c) (to_String rt n))"
proof -
  have a: "exposes_only 4 4 (to_String rt n) (maskAadhaarUI rt n)"
    using assms by (simp add: maskAadhaarUI_def exposes_only_masked mask_literals)
  have b: "exposes_only 5 2 (to_String rt n) (maskPanUI rt n)"
    using assms by (simp add: maskPanUI_def exposes_only_masked mask_literals)
  have c: "exposes_only f b (filter (\<lambda>c. \<not> is_space c) (to_String rt n)) (maskNumber rt n f b)"
    using assms by (rule maskNumber_exposes)
  have d: "8 \<le> length (filter is_digit (to_String rt n))
          \<longrightarrow> (\<exists>out. maskAadhaar rt n = Str out
                 \<and> exposes_only 4 4 (filter is_digit (to_String rt n)) out)"
    using assms by (simp add: maskAadhaar_def Let_def exposes_only_masked mask_literals)
  have e: "length (filter (\<lambda>c. \<not> is_space c) (to_String rt n)) = 10
          \<longrightarrow> (\<exists>out. maskPan rt n = Str out
                 \<and> exposes_only 5 2 (filter (\<lambda>c. \<not> is_space c) (to_String rt n)) out)"
    using assms by (simp add: maskPan_def Let_def exposes_only_masked mask_literals)
  have g: "length (filter is_digit (to_String rt n)) < 8 \<longrightarrow> maskAadhaar rt n = n"
    using assms by (simp add: maskAadhaar_def)
  have h: "length (filter (\<lambda>c. \<not> is_space c) (to_String rt n)) \<noteq> 10 \<longrightarrow> maskPan rt n = n"
    using assms by (simp add: maskPan_def)
  have l: "length (maskNumber rt n f b)
         = length (filter (\<lambda>c. \<not> is_space c) (to_String rt n))"
    using assms by (rule maskNumber_length)
  from a b c d e g h l show ?thesis by blast
qed

theorem maskers_expose_only_witness:
  "truthy (Str (U ''ABCDE 1234F''))
   \<and> maskPanUI sample_runtime (Str (U ''ABCDE 1234F'')) = U ''ABCDE-XX4F''
   \<and> exposes_only 5 2 (U ''ABCDE 1234F'') (U ''ABCDE-XX4F'')
   \<and> maskNumber sample_runtime (Str (U ''ABCDE 1234F'')) 3 2 = U ''ABCXXXXX4F''
   \<and> exposes_only 3 2 (U ''ABCDE1234F'') (U ''ABCXXXXX4F'')
   \<and> maskPan sample_runtime (Str (U ''ABCDE 1234F'')) = Str (U ''ABCDE-XX4F'')"
proof -
  let ?n = "Str (U ''ABCDE 1234F'')"
  have t: "truthy ?n"
    by (simp add: U_def)
  have s: "filter (\<lambda>c. \<not> is_space c) (to_String sample_runtime ?n) = U ''ABCDE1234F''"
    by (simp add: U_def is_space_def)
  have l: "length (U ''ABCDE1234F'') = 10"
    by (simp add: U_def)
  have ui: "maskPanUI sample_runtime ?n = U ''ABCDE-XX4F''"
    by (simp add: maskPanUI_def U_def lastn_def)
  have mn: "maskNumber sample_runtime ?n 3 2 = U ''ABCXXXXX4F''"
    unfolding maskNumber_def s Let_def using t by (simp add: U_def)
  have mp: "maskPan sample_runtime ?n = Str (U ''ABCDE-XX4F'')"
    unfolding maskPan_def s Let_def using t by (simp add: U_def lastn_def)
  note w = maskers_expose_only [OF t, of sample_runtime 3 2]
  have e1: "exposes_only 5 2 (U ''ABCDE 1234F'') (U ''ABCDE-XX4F'')"
    using w ui by simp
  have e2: "exposes_only 3 2 (U ''ABCDE1234F'') (U ''ABCXXXXX4F'')"
    using w mn s by simp
  from t ui e1 mn e2 mp show ?thesis by simp
qed

text \<open>
  The claim as stated fails for \<open>maskPan\<close> on an identifier of 11 characters: it is returned
  whole, with its characters 6 to 9 outside the visible prefix and suffix and no mask
  character.
\<close>

theorem maskers_expose_counterexample:
  "maskPan sample_runtime (Str (U ''ABCDE1234FG'')) = Str (U ''ABCDE1234FG'')
   \<and> \<not> exposes_only 5 2 (U ''ABCDE1234FG'') (U ''ABCDE1234FG'')"
  by (simp add: maskPan_def U_def is_space_def lastn_def exposes_only_def is_mask_def)

section \<open>Properties of the timestamp formatter\<close>

lemma pad_digits: "n < 100 \<Longrightarrow> padStart0 2 (digits n) = two_digits n"
proof (cases "n < 10")
  case True
  then show ?thesis
    by (simp add: padStart0_def two_digits_def digits.simps [of n])
next
  case False
  assume "n < 100"
  with False have "n div 10 < 10" by simp
  with False show ?thesis
    by (simp add: padStart0_def two_digits_def digits.simps [of n] digits.simps [of "n div 10"])
qed

lemma num_to_string_nat:
  "n \<le> 275760 \<Longrightarrow> num_to_string rt (Fin (of_nat n)) = digits n"
proof -
  assume n: "n \<le> 275760"
  have i: "is_integer (of_nat n)"
    by (simp add: is_integer_def)
  have "(of_nat n :: rat) \<le> of_nat 275760"
    using n by (simp only: of_nat_le_iff)
  then have b: "\<bar>of_nat n :: rat\<bar> \<le> 9007199254740992"
    by simp
  show ?thesis
    using i b by (simp add: num_to_string_def int_to_string_def)
qed

lemma num_to_string_int:
  "\<bar>i\<bar> \<le> 275760 \<Longrightarrow> num_to_string rt (Fin (of_int i)) = int_to_string i"
proof -
  assume n: "\<bar>i\<bar> \<le> 275760"
  have i: "is_integer (of_int i)"
    by (simp add: is_integer_def)
  have "\<bar>of_int i :: rat\<bar> = of_int \<bar>i\<bar>" by simp
  also have "\<dots> \<le> of_int 275760"
    using n by (simp only: of_int_le_iff)
  finally have b: "\<bar>of_int i :: rat\<bar> \<le> 9007199254740992"
    by simp
  show ?thesis
    using i b by (simp add: num_to_string_def)
qed

lemma num_rem_nat: "0 < k \<Longrightarrow> num_rem (Fin (of_nat h)) k = Fin (of_nat (h mod k))"
proof -
  assume "0 < k"
  have "\<lfloor>(of_nat h :: rat) / of_nat k\<rfloor> = int (h div k)"
    by (simp add: floor_divide_of_nat_eq)
  moreover have "(of_nat (h mod k) :: rat) = of_nat h - of_nat k * of_nat (h div k)"
    by (metis add_diff_cancel_left' mult_div_mod_eq of_nat_add of_nat_mult)
  ultimately show ?thesis
    by simp
qed

lemma pad_nat:
  "n < 100 \<Longrightarrow> padStart0 2 (num_to_string rt (Fin (of_nat n))) = two_digits n"
  by (simp add: num_to_string_nat pad_digits)

lemma hours_12:
  "num_or (num_rem (Fin (of_nat h)) 12) 12 = Fin (of_nat (hour12 h))"
proof -
  have "num_rem (Fin (of_nat h)) 12 = Fin (of_nat (h mod 12))"
    by (rule num_rem_nat) simp
  then show ?thesis
    by (simp add: hour12_def)
qed

lemma hour12_le: "hour12 h < 100"
proof -
  have "h mod 12 < 12" by simp
  then show ?thesis
    unfolding hour12_def by (simp only: split: if_split) linarith
qed

lemma render_valid:
  assumes "valid_ltime t"
  shows "render_timestamp rt (Some t) = fixed_format t"
proof -
  have d: "padStart0 2 (num_to_string rt (getDate (Some t))) = two_digits (day t)"
    using assms by (simp add: getDate_def valid_ltime_def pad_nat)
  have mp: "num_plus (getMonth (Some t)) 1 = Fin (of_nat (month t + 1))"
    by (simp add: getMonth_def)
  have "month t + 1 < 100"
    using assms by (simp add: valid_ltime_def)
  then have m: "padStart0 2 (num_to_string rt (num_plus (getMonth (Some t)) 1))
      = two_digits (month t + 1)"
    unfolding mp by (rule pad_nat)
  have y: "num_to_string rt (getFullYear (Some t)) = int_to_string (year t)"
    using assms by (simp add: getFullYear_def valid_ltime_def num_to_string_int)
  have mi: "padStart0 2 (num_to_string rt (getMinutes (Some t))) = two_digits (minutes t)"
    using assms by (simp add: getMinutes_def valid_ltime_def pad_nat)
  have se: "padStart0 2 (num_to_string rt (getSeconds (Some t))) = two_digits (seconds t)"
    using assms by (simp add: getSeconds_def valid_ltime_def pad_nat)
  have gh: "getHours (Some t) = Fin (of_nat (hours t))"
    by (simp add: getHours_def)
  have h: "padStart0 2 (num_to_string rt (num_or (num_rem (getHours (Some t)) 12) 12))
      = two_digits (hour12 (hours t))"
    unfolding gh hours_12 by (rule pad_nat) (rule hour12_le)
  have ap: "(if num_ge (getHours (Some t)) 12 then U ''PM'' else U ''AM'')
      = (if hours t < 12 then U ''AM'' else U ''PM'')"
    by (auto simp add: getHours_def)
  show ?thesis
    unfolding render_timestamp_def Let_def d m y mi se h ap fixed_format_def
    by (rule refl)
qed

lemma digits_12: "digits 12 = U ''12''"
  by code_simp

lemma render_invalid:
  "render_timestamp rt None = U ''NaN/NaN/NaN 12:NaN:NaN AM''"
proof -
  have "num_to_string rt (Fin (of_nat 12)) = digits 12"
    by (rule num_to_string_nat) simp
  then have h: "padStart0 2 (num_to_string rt (Fin 12)) = U ''12''"
    by (simp add: digits_12 padStart0_def U_def)
  have n: "padStart0 2 (U ''NaN'') = U ''NaN''"
    by (simp add: padStart0_def U_def)
  have y: "num_to_string rt NaN = U ''NaN''"
    by (simp add: num_to_string_def)
  have "render_timestamp rt None =
      U ''NaN'' @ U ''/'' @ U ''NaN'' @ U ''/'' @ U ''NaN'' @ U '' '' @ U ''12'' @ U '':''
        @ U ''NaN'' @ U '':'' @ U ''NaN'' @ U '' '' @ U ''AM''"
    by (simp add: render_timestamp_def getDate_def getMonth_def getFullYear_def getHours_def
        getMinutes_def getSeconds_def n y h)
  then show ?thesis
    by (simp add: U_def)
qed

lemma length_digits_4: "1000 \<le> n \<Longrightarrow> n \<le> 9999 \<Longrightarrow> length (digits n) = 4"
proof -
  assume a: "1000 \<le> n" "n \<le> 9999"
  then have b: "\<not> n < 10" "\<not> n div 10 < 10" "\<not> n div 10 div 10 < 10" "n div 10 div 10 div 10 < 10"
    by auto
  show ?thesis
    using b
    by (simp add: digits.simps [of n] digits.simps [of "n div 10"]
        digits.simps [of "n div 10 div 10"] digits.simps [of "n div 10 div 10 div 10"])
qed

lemma length_fixed_format:
  "1000 \<le> year t \<Longrightarrow> year t \<le> 9999 \<Longrightarrow> length (fixed_format t) = 22"
proof -
  assume a: "1000 \<le> year t" "year t \<le> 9999"
  then have "length (int_to_string (year t)) = 4"
    by (simp add: int_to_string_def length_digits_4)
  then show ?thesis
    by (simp add: fixed_format_def two_digits_def U_def)
qed

lemma example_format:
  "fixed_format \<lparr>year = 2025, month = 11, day = 9, hours = 17, minutes = 33, seconds = 21\<rparr>
     = U ''09/12/2025 05:33:21 PM''"
  by (simp add: fixed_format_def two_digits_def hour12_def int_to_string_def U_def
      digits.simps [of 2025] digits.simps [of 202] digits.simps [of 20] digits.simps [of 2])


lemma sample_date:
  "new_Date sample_runtime (Str (U ''2025-12-09T17:33:21''))
     = Some \<lparr>year = 2025, month = 11, day = 9, hours = 17, minutes = 33, seconds = 21\<rparr>"
  by (simp add: sample_runtime_def sample_new_Date_def)

lemma sample_epoch:
  "new_Date sample_runtime (Num (Fin 0))
     = Some \<lparr>year = 1970, month = 0, day = 1, hours = 0, minutes = 0, seconds = 0\<rparr>"
  by (simp add: sample_runtime_def sample_new_Date_def)

lemma sample_not_a_date: "new_Date sample_runtime (Str (U ''not-a-date'')) = None"
  by (simp add: sample_runtime_def sample_new_Date_def U_inj)

lemma epoch_year: "int_to_string 1970 = U ''1970''"
  by code_simp

lemma epoch_format:
  "fixed_format \<lparr>year = 1970, month = 0, day = 1, hours = 0, minutes = 0, seconds = 0\<rparr>
     = U ''01/01/1970 12:00:00 AM''"
  by (simp add: fixed_format_def two_digits_def hour12_def epoch_year U_def)

text \<open>
  Claim C6, as the code has it. For every input that is not falsy and that \<open>new Date\<close>
  parses, \<open>formatExact\<close> and \<open>formatDate\<close> render the local time as
  \<open>DD/MM/YYYY hh:mm:ss AM|PM\<close>: day, month, hour, minute and second on two digits, the
  hour on the 12-hour clock with 12 for 0, the year as it prints (four digits from 1000 to
  9999, 22 characters in all). The local time 2025-12-09 17:33:21 renders as
  \<open>09/12/2025 05:33:21 PM\<close>.
\<close>

theorem format_timestamp_fixed:
  assumes "truthy ts" and "new_Date rt ts = Some t" and "valid_ltime t"
  shows "formatExact rt ts = Str (fixed_format t)
     \<and> formatDate rt ts = Str (fixed_format t)
     \<and> (1000 \<le> year t \<and> year t \<le> 9999 \<longrightarrow> length (fixed_format t) = 22)
     \<and> (t = \<lparr>year = 2025, month = 11, day = 9, hours = 17, minutes = 33, seconds = 21\<rparr>
          \<longrightarrow> formatExact rt ts = Str (U ''09/12/2025 05:33:21 PM'')
            \<and> formatDate rt ts = Str (U ''09/12/2025 05:33:21 PM''))"
proof -
  have r: "render_timestamp rt (Some t) = fixed_format t"
    using assms(3) by (rule render_valid)
  have a: "formatExact rt ts = Str (fixed_format t)"
    using assms(1,2) r by (simp add: formatExact_def)
  have b: "formatDate rt ts = Str (fixed_format t)"
    using assms(1,2) r by (simp add: formatDate_def)
  have c: "1000 \<le> year t \<and> year t \<le> 9999 \<longrightarrow> length (fixed_format t) = 22"
    using length_fixed_format by blast
  from a b c example_format show ?thesis
    by auto
qed

theorem format_timestamp_fixed_witness:
  "truthy (Str (U ''2025-12-09T17:33:21''))
   \<and> valid_ltime \<lparr>year = 2025, month = 11, day = 9, hours = 17, minutes = 33, seconds = 21\<rparr>
   \<and> formatExact sample_runtime (Str (U ''2025-12-09T17:33:21''))
       = Str (U ''09/12/2025 05:33:21 PM'')
   \<and> formatDate sample_runtime (Str (U ''2025-12-09T17:33:21''))
       = Str (U ''09/12/2025 05:33:21 PM'')"
proof -
  have t: "truthy (Str (U ''2025-12-09T17:33:21''))"
    by (simp add: U_Nil)
  have v: "valid_ltime
      \<lparr>year = 2025, month = 11, day = 9, hours = 17, minutes = 33, seconds = 21\<rparr>"
    by (simp add: valid_ltime_def)
  have "formatExact sample_runtime (Str (U ''2025-12-09T17:33:21''))
        = Str (U ''09/12/2025 05:33:21 PM'')
      \<and> formatDate sample_runtime (Str (U ''2025-12-09T17:33:21''))
        = Str (U ''09/12/2025 05:33:21 PM'')"
    using format_timestamp_fixed [OF t sample_date v] by blast
  with t v show ?thesis
    by blast
qed

text \<open>
  The claim as stated fails on the number 0: \<open>new Date(0)\<close> is a valid date (the epoch),
  and both formatters return the em dash for it.
\<close>

theorem format_timestamp_counterexample:
  "new_Date sample_runtime (Num (Fin 0))
     = Some \<lparr>year = 1970, month = 0, day = 1, hours = 0, minutes = 0, seconds = 0\<rparr>
   \<and> fixed_format \<lparr>year = 1970, month = 0, day = 1, hours = 0, minutes = 0, seconds = 0\<rparr>
       = U ''01/01/1970 12:00:00 AM''
   \<and> formatExact sample_runtime (Num (Fin 0)) = Str em_dash
   \<and> formatDate sample_runtime (Num (Fin 0)) = Str em_dash
   \<and> em_dash \<noteq> U ''01/01/1970 12:00:00 AM''"
proof -
  have a: "formatExact sample_runtime (Num (Fin 0)) = Str em_dash"
    by (simp add: formatExact_def)
  have b: "formatDate sample_runtime (Num (Fin 0)) = Str em_dash"
    by (simp add: formatDate_def)
  have c: "em_dash \<noteq> U ''01/01/1970 12:00:00 AM''"
    by (simp add: em_dash_def U_def)
  from sample_epoch epoch_format a b c show ?thesis
    by blast
qed

text \<open>An Invalid Date in \<open>formatDate\<close>: every getter is \<open>NaN\<close>.\<close>

lemma formatDate_invalid:
  "truthy ts \<Longrightarrow> new_Date rt ts = None
     \<Longrightarrow> formatDate rt ts = Str (U ''NaN/NaN/NaN 12:NaN:NaN AM'')"
  by (simp add: formatDate_def render_invalid)

text \<open>
  Claim C7, as the code has it. For every missing input (\<open>null\<close>, \<open>undefined\<close>, the empty
  string, any falsy value) both formatters return the em dash. For an input that is not
  falsy and that \<open>new Date\<close> cannot parse, \<open>formatExact\<close> returns the input unchanged.
\<close>

theorem format_timestamp_missing_or_invalid:
  "(\<not> truthy ts \<longrightarrow> formatExact rt ts = Str em_dash \<and> formatDate rt ts = Str em_dash)
   \<and> (truthy ts \<and> new_Date rt ts = None \<longrightarrow> formatExact rt ts = ts)"
  by (simp add: formatExact_def formatDate_def)

theorem format_timestamp_missing_or_invalid_witness:
  "\<not> truthy Null \<and> \<not> truthy Undefined \<and> \<not> truthy (Str [])
   \<and> formatExact sample_runtime Null = Str em_dash
   \<and> formatDate sample_runtime Undefined = Str em_dash
   \<and> formatExact sample_runtime (Str []) = Str em_dash
   \<and> formatDate sample_runtime (Str []) = Str em_dash
   \<and> truthy (Str (U ''31/31/2025''))
   \<and> new_Date sample_runtime (Str (U ''31/31/2025'')) = None
   \<and> formatExact sample_runtime (Str (U ''31/31/2025'')) = Str (U ''31/31/2025'')"
proof -
  have t: "truthy (Str (U ''31/31/2025''))"
    by (simp add: U_Nil)
  have n: "new_Date sample_runtime (Str (U ''31/31/2025'')) = None"
    by (simp add: sample_runtime_def sample_new_Date_def U_inj)
  show ?thesis
    using format_timestamp_missing_or_invalid [of Null sample_runtime]
      format_timestamp_missing_or_invalid [of Undefined sample_runtime]
      format_timestamp_missing_or_invalid [of "Str []" sample_runtime]
      format_timestamp_missing_or_invalid [of "Str (U ''31/31/2025'')" sample_runtime]
      t n
    by simp
qed

text \<open>
  The claim as stated fails on a string that is no date: \<open>formatExact\<close> returns the string,
  not the em dash.
\<close>

theorem format_timestamp_invalid_counterexample:
  "truthy (Str (U ''not-a-date''))
   \<and> new_Date sample_runtime (Str (U ''not-a-date'')) = None
   \<and> formatExact sample_runtime (Str (U ''not-a-date'')) = Str (U ''not-a-date'')
   \<and> formatDate sample_runtime (Str (U ''not-a-date'')) = Str (U ''NaN/NaN/NaN 12:NaN:NaN AM'')
   \<and> Str (U ''not-a-date'') \<noteq> Str em_dash
   \<and> Str (U ''NaN/NaN/NaN 12:NaN:NaN AM'') \<noteq> Str em_dash"
proof -
  have t: "truthy (Str (U ''not-a-date''))"
    by (simp add: U_Nil)
  have a: "formatExact sample_runtime (Str (U ''not-a-date'')) = Str (U ''not-a-date'')"
    using t sample_not_a_date by (simp add: formatExact_def)
  have b: "formatDate sample_runtime (Str (U ''not-a-date''))
      = Str (U ''NaN/NaN/NaN 12:NaN:NaN AM'')"
    using t sample_not_a_date by (simp add: formatDate_def render_invalid)
  have c: "Str (U ''not-a-date'') \<noteq> Str em_dash"
    "Str (U ''NaN/NaN/NaN 12:NaN:NaN AM'') \<noteq> Str em_dash"
    by (simp_all add: em_dash_def U_def)
  from t sample_not_a_date a b c show ?thesis
    by simp
qed

section \<open>Properties of the aggregate fallback calculator\<close>

lemma gt_70_30: "num_gt n 70 \<Longrightarrow> num_gt n 30"
  by (cases n) auto

lemma tally_fields:
  "Low (fst (tally rt (b, v) r))
     = Low b + (if thresholds (score_of rt r) = U ''Low'' then 1 else 0)"
  "Medium (fst (tally rt (b, v) r))
     = Medium b + (if thresholds (score_of rt r) = U ''Medium'' then 1 else 0)"
  "High (fst (tally rt (b, v) r))
     = High b + (if thresholds (score_of rt r) = U ''High'' then 1 else 0)"
  "verified (snd (tally rt (b, v) r))
     = verified v + (if num_gt (score_of rt r) 30 then 0 else 1)"
  "unverified (snd (tally rt (b, v) r))
     = unverified v + (if num_gt (score_of rt r) 30 then 1 else 0)"
  using gt_70_30 [of "score_of rt r"]
  by (auto simp add: tally_def thresholds_def U_inj Let_def)

lemma tally_foldl:
  "foldl (tally rt) (b, v) rs =
     (\<lparr>Low = Low b + length (filter (\<lambda>r. thresholds (score_of rt r) = U ''Low'') rs),
       Medium = Medium b + length (filter (\<lambda>r. thresholds (score_of rt r) = U ''Medium'') rs),
       High = High b + length (filter (\<lambda>r. thresholds (score_of rt r) = U ''High'') rs)\<rparr>,
      \<lparr>verified = verified v + length (filter (\<lambda>r. \<not> num_gt (score_of rt r) 30) rs),
       unverified = unverified v + length (filter (\<lambda>r. num_gt (score_of rt r) 30) rs)\<rparr>)"
proof (induction rs arbitrary: b v)
  case Nil
  then show ?case by simp
next
  case (Cons r rs)
  have "foldl (tally rt) (b, v) (r # rs)
      = foldl (tally rt) (fst (tally rt (b, v) r), snd (tally rt (b, v) r)) rs"
    by simp
  also have "\<dots> =
     (\<lparr>Low = Low (fst (tally rt (b, v) r))
              + length (filter (\<lambda>r. thresholds (score_of rt r) = U ''Low'') rs),
       Medium = Medium (fst (tally rt (b, v) r))
              + length (filter (\<lambda>r. thresholds (score_of rt r) = U ''Medium'') rs),
       High = High (fst (tally rt (b, v) r))
              + length (filter (\<lambda>r. thresholds (score_of rt r) = U ''High'') rs)\<rparr>,
      \<lparr>verified = verified (snd (tally rt (b, v) r))
              + length (filter (\<lambda>r. \<not> num_gt (score_of rt r) 30) rs),
       unverified = unverified (snd (tally rt (b, v) r))
              + length (filter (\<lambda>r. num_gt (score_of rt r) 30) rs)\<rparr>)"
    by (rule Cons.IH)
  also have "\<dots> =
     (\<lparr>Low = Low b + length (filter (\<lambda>r. thresholds (score_of rt r) = U ''Low'') (r # rs)),
       Medium = Medium b
              + length (filter (\<lambda>r. thresholds (score_of rt r) = U ''Medium'') (r # rs)),
       High = High b + length (filter (\<lambda>r. thresholds (score_of rt r) = U ''High'') (r # rs))\<rparr>,
      \<lparr>verified = verified v + length (filter (\<lambda>r. \<not> num_gt (score_of rt r) 30) (r # rs)),
       unverified = unverified v + length (filter (\<lambda>r. num_gt (score_of rt r) 30) (r # rs))\<rparr>)"
    by (simp add: tally_fields)
  finally show ?case .
qed

lemma sum_foldl:
  assumes "list_all (\<lambda>r. is_fin (score_of rt r)) rs"
  shows "foldl (\<lambda>a b. num_add a (score_of rt b)) (Fin a0) rs
     = Fin (a0 + sum_list (map (\<lambda>r. the_fin (score_of rt r)) rs))"
  using assms
proof (induction rs arbitrary: a0)
  case Nil
  then show ?case by simp
next
  case (Cons r rs)
  then obtain q where q: "score_of rt r = Fin q"
    by (cases "score_of rt r") (auto simp add: is_fin_def)
  from Cons show ?case
    by (simp add: q add.assoc)
qed

lemma not_gt_le: "is_fin n \<Longrightarrow> \<not> num_gt n k \<longleftrightarrow> num_le n k"
  by (cases n) (auto simp add: is_fin_def)

lemma computeFallback_buckets:
  "riskBuckets (computeFallback rt rs) =
     \<lparr>Low = length (filter (\<lambda>r. thresholds (score_of rt r) = U ''Low'') rs),
      Medium = length (filter (\<lambda>r. thresholds (score_of rt r) = U ''Medium'') rs),
      High = length (filter (\<lambda>r. thresholds (score_of rt r) = U ''High'') rs)\<rparr>"
  by (simp add: computeFallback_def tally_foldl Let_def)

lemma computeFallback_docs:
  "verifiedDocs (computeFallback rt rs) =
     \<lparr>verified = length (filter (\<lambda>r. \<not> num_gt (score_of rt r) 30) rs),
      unverified = length (filter (\<lambda>r. num_gt (score_of rt r) 30) rs)\<rparr>"
  by (simp add: computeFallback_def tally_foldl Let_def)

lemma filter_verified:
  assumes "list_all (\<lambda>r. is_fin (score_of rt r)) rs"
  shows "filter (\<lambda>r. \<not> num_gt (score_of rt r) 30) rs = filter (\<lambda>r. num_le (score_of rt r) 30) rs"
  using assms by (intro filter_cong) (auto simp add: list_all_iff not_gt_le)

lemma computeFallback_riskScore:
  assumes "list_all (\<lambda>r. is_fin (score_of rt r)) rs"
  shows "riskScore (computeFallback rt rs)
     = (if rs = [] then Fin 0 else Fin (of_int \<lfloor>mean_score rt rs + 1 / 2\<rfloor>))"
  using sum_foldl [OF assms, of 0]
  by (simp add: computeFallback_def Let_def mean_score_def)

lemma js_plus_Fin: "js_plus rt (Num (Fin a)) (Num (Fin b)) = Num (Fin (a + b))"
  by (simp add: js_plus_def to_primitive_def)

lemma numeric_score:
  assumes "get (get r (U ''fraud_result'')) (U ''fraud_score'') = Num (Fin q)"
  shows "\<not> nullish r" "\<not> nullish (get r (U ''fraud_result''))" "score_of rt r = Fin q"
    "or_else (get (get r (U ''fraud_result'')) (U ''fraud_score'')) (Num (Fin 0)) = Num (Fin q)"
proof -
  show fr: "\<not> nullish (get r (U ''fraud_result''))"
    using assms by (cases "get r (U ''fraud_result'')") auto
  then show r: "\<not> nullish r"
    by (cases r) auto
  show "score_of rt r = Fin q"
    using assms fr r by (simp add: score_of_def get_opt_def or_else_def)
  show "or_else (get (get r (U ''fraud_result'')) (U ''fraud_score'')) (Num (Fin 0)) = Num (Fin q)"
    using assms by (simp add: or_else_def)
qed

lemma computeAvg_sum_numeric:
  assumes "list_all has_score rs"
  shows "computeAvg_sum rt (Num (Fin a0)) rs
     = Inr (Num (Fin (a0 + sum_list (map (\<lambda>r. the_fin (score_of rt r)) rs))))"
  using assms
proof (induction rs arbitrary: a0)
  case Nil
  then show ?case by simp
next
  case (Cons r rs)
  then obtain q where q: "get (get r (U ''fraud_result'')) (U ''fraud_score'') = Num (Fin q)"
    by (auto simp add: has_score_def)
  note n = numeric_score [OF q]
  have "computeAvg_sum rt (Num (Fin a0)) (r # rs) = computeAvg_sum rt (Num (Fin (a0 + q))) rs"
    using n by (simp add: js_plus_Fin)
  also have "\<dots> = Inr (Num (Fin (a0 + q + sum_list (map (\<lambda>r. the_fin (score_of rt r)) rs))))"
    using Cons by simp
  finally show ?case
    using n by (simp add: add.assoc)
qed

lemma computeAvg_numeric:
  assumes "list_all has_score rs"
  shows "computeAvg rt rs
     = Inr (if rs = [] then Fin 0 else Fin (of_int \<lfloor>mean_score rt rs + 1 / 2\<rfloor>))"
  using computeAvg_sum_numeric [OF assms, of rt 0]
  by (simp add: computeAvg_def mean_score_def)

lemma score_record_get:
  "get (get (score_record q) (U ''fraud_result'')) (U ''fraud_score'') = Num (Fin q)"
  by (simp add: score_record_def)

lemma score_record_score: "score_of rt (score_record q) = Fin q"
  using numeric_score(3) [OF score_record_get] .

lemma computeFallback_example:
  "computeFallback rt [score_record 10, score_record 50, score_record 90]
     = \<lparr>riskScore = Fin 50,
        riskBuckets = \<lparr>Low = 1, Medium = 1, High = 1\<rparr>,
        verifiedDocs = \<lparr>verified = 1, unverified = 2\<rparr>\<rparr>"
  by (simp add: computeFallback_def tally_def score_record_score Let_def floor_eq_iff)

text \<open>
  Claim C8. From the raw record list the fallback calculator counts, for each bucket, the
  records that the numeric classifier puts in it, counts as unverified the records with a
  fraud score above 30 and as verified those with a score of at most 30, and returns the
  arithmetic mean of the scores rounded to the nearest integer, 0 for the empty list; the
  scores 10, 50, 90 give one record per bucket and the mean 50. The fraud score of a record
  is a number here (a score that does not convert to a number is counted Low and verified,
  and makes the mean \<open>NaN\<close>). \<open>computeAvg\<close> returns the same mean for records that carry a
  numeric score.
\<close>

theorem computeFallback_spec:
  "riskBuckets (computeFallback rt rs) =
     \<lparr>Low = length (filter (\<lambda>r. thresholds (score_of rt r) = U ''Low'') rs),
      Medium = length (filter (\<lambda>r. thresholds (score_of rt r) = U ''Medium'') rs),
      High = length (filter (\<lambda>r. thresholds (score_of rt r) = U ''High'') rs)\<rparr>
   \<and> unverified (verifiedDocs (computeFallback rt rs))
       = length (filter (\<lambda>r. num_gt (score_of rt r) 30) rs)
   \<and> (list_all (\<lambda>r. is_fin (score_of rt r)) rs \<longrightarrow>
        verified (verifiedDocs (computeFallback rt rs))
          = length (filter (\<lambda>r. num_le (score_of rt r) 30) rs)
        \<and> riskScore (computeFallback rt rs)
          = (if rs = [] then Fin 0 else Fin (of_int \<lfloor>mean_score rt rs + 1 / 2\<rfloor>)))
   \<and> (list_all has_score rs \<longrightarrow>
        computeAvg rt rs
          = Inr (if rs = [] then Fin 0 else Fin (of_int \<lfloor>mean_score rt rs + 1 / 2\<rfloor>)))
   \<and> riskScore (computeFallback rt []) = Fin 0
   \<and> computeAvg rt [] = Inr (Fin 0)
   \<and> computeFallback rt [score_record 10, score_record 50, score_record 90]
       = \<lparr>riskScore = Fin 50,
          riskBuckets = \<lparr>Low = 1, Medium = 1, High = 1\<rparr>,
          verifiedDocs = \<lparr>verified = 1, unverified = 2\<rparr>\<rparr>"
proof -
  have u: "unverified (verifiedDocs (computeFallback rt rs))
       = length (filter (\<lambda>r. num_gt (score_of rt r) 30) rs)"
    by (simp add: computeFallback_docs)
  have v: "list_all (\<lambda>r. is_fin (score_of rt r)) rs \<longrightarrow>
        verified (verifiedDocs (computeFallback rt rs))
          = length (filter (\<lambda>r. num_le (score_of rt r) 30) rs)
        \<and> riskScore (computeFallback rt rs)
          = (if rs = [] then Fin 0 else Fin (of_int \<lfloor>mean_score rt rs + 1 / 2\<rfloor>))"
    using filter_verified [of rt rs] computeFallback_riskScore [of rt rs]
    by (simp add: computeFallback_docs)
  have a: "list_all has_score rs \<longrightarrow>
        computeAvg rt rs
          = Inr (if rs = [] then Fin 0 else Fin (of_int \<lfloor>mean_score rt rs + 1 / 2\<rfloor>))"
    using computeAvg_numeric [of rs rt] by blast
  have e: "riskScore (computeFallback rt []) = Fin 0" "computeAvg rt [] = Inr (Fin 0)"
    by (simp_all add: computeFallback_def computeAvg_def)
  from computeFallback_buckets u v a e computeFallback_example show ?thesis
    by blast
qed

theorem computeFallback_spec_witness:
  "list_all (\<lambda>r. is_fin (score_of sample_runtime r)) [score_record 30, score_record 31, Obj []]
   \<and> verified (verifiedDocs (computeFallback sample_runtime
        [score_record 30, score_record 31, Obj []])) = 2
   \<and> riskScore (computeFallback sample_runtime [score_record 30, score_record 31, Obj []])
       = Fin 20
   \<and> list_all has_score [score_record 70, score_record 71]
   \<and> computeAvg sample_runtime [score_record 70, score_record 71] = Inr (Fin 71)"
proof -
  let ?rs = "[score_record 30, score_record 31, Obj []]"
  let ?qs = "[score_record 70, score_record 71]"
  have z: "score_of sample_runtime (Obj []) = Fin 0"
    by (simp add: score_of_def get_opt_def or_else_def)
  have f: "list_all (\<lambda>r. is_fin (score_of sample_runtime r)) ?rs"
    by (simp add: score_record_score z is_fin_def)
  have h: "list_all has_score ?qs"
    using score_record_get by (auto simp add: has_score_def)
  have m: "mean_score sample_runtime ?rs = 61 / 3"
    by (simp add: mean_score_def score_record_score z)
  have n: "mean_score sample_runtime ?qs = 141 / 2"
    by (simp add: mean_score_def score_record_score)
  have v: "verified (verifiedDocs (computeFallback sample_runtime ?rs)) = 2"
    using computeFallback_spec [of sample_runtime ?rs] f
    by (simp add: score_record_score z)
  have s: "riskScore (computeFallback sample_runtime ?rs) = Fin 20"
    using computeFallback_spec [of sample_runtime ?rs] f m
    by (simp add: floor_eq_iff)
  have a: "computeAvg sample_runtime ?qs = Inr (Fin 71)"
    using computeFallback_spec [of sample_runtime ?qs] h n
    by (simp add: floor_eq_iff)
  from f v s h a show ?thesis
    by blast
qed

section \<open>Properties of the actions\<close>

lemma get_with_status:
  assumes "is_object r"
  shows "get (with_status r s) k = (if k = U ''status'' then Str s else get r k)"
proof -
  obtain kvs where r: "r = Obj kvs"
    using assms by (cases r) auto
  show ?thesis
    by (simp add: r with_status_def update_conv')
qed

lemma map_status_objects:
  assumes "list_all is_object prev"
  shows "\<exists>nxt. map_status id' s prev = Inr nxt \<and> status_update id' s prev nxt"
  using assms
proof (induction prev)
  case Nil
  then show ?case
    by (simp add: status_update_def)
next
  case (Cons r rs)
  then obtain nxt where n: "map_status id' s rs = Inr nxt" and u: "status_update id' s rs nxt"
    by auto
  have o: "is_object r"
    using Cons.prems by simp
  then have nn: "\<not> nullish r"
    by (cases r) auto
  let ?r' = "if strict_eq (get r (U ''_id'')) id' then with_status r s else r"
  have m: "map_status id' s (r # rs) = Inr (?r' # nxt)"
    using nn n by simp
  have "status_update id' s (r # rs) (?r' # nxt)"
    unfolding status_update_def
  proof (intro conjI allI impI)
    show "length (?r' # nxt) = length (r # rs)"
      using u by (simp add: status_update_def)
  next
    fix i
    assume "i < length (r # rs)"
    show "if strict_eq (get ((r # rs) ! i) (U ''_id'')) id'
          then get ((?r' # nxt) ! i) (U ''status'') = Str s
               \<and> (\<forall>k. k \<noteq> U ''status'' \<longrightarrow> get ((?r' # nxt) ! i) k = get ((r # rs) ! i) k)
          else (?r' # nxt) ! i = (r # rs) ! i"
    proof (cases i)
      case 0
      then show ?thesis
        using o by (simp add: get_with_status)
    next
      case (Suc j)
      then have "j < length rs"
        using \<open>i < length (r # rs)\<close> by simp
      then show ?thesis
        using u Suc unfolding status_update_def by simp
    qed
  qed
  with m show ?case
    by blast
qed

text \<open>
  Claim C10. After an approve, reject or flag action whose request resolved, on a list of
  records that are objects and for a primitive id, the next list has the same length;
  every record whose \<open>_id\<close> is not the id is unchanged; every record whose \<open>_id\<close> is the id
  has the status Approved, Rejected or Flagged, and each of its other fields as before.
  The handlers of the KYC dashboard and of the admin dashboard perform the same update.
  When the request does not resolve the list is unchanged.
\<close>

theorem actions_change_only_status:
  assumes "list_all is_object prev" and "is_primitive id'"
  shows "(\<exists>nxt. doAction True id' (U ''approve'') prev = Inr nxt
            \<and> status_update id' (U ''Approved'') prev nxt)
     \<and> (\<exists>nxt. doAction True id' (U ''reject'') prev = Inr nxt
            \<and> status_update id' (U ''Rejected'') prev nxt)
     \<and> (\<exists>nxt. doAction True id' (U ''flag'') prev = Inr nxt
            \<and> status_update id' (U ''Flagged'') prev nxt)
     \<and> onApprove True id' prev = doAction True id' (U ''approve'') prev
     \<and> approve True id' prev = doAction True id' (U ''approve'') prev
     \<and> onReject True id' prev = doAction True id' (U ''reject'') prev
     \<and> reject True id' prev = doAction True id' (U ''reject'') prev
     \<and> doAction False id' action prev = Inr prev
     \<and> onApprove False id' prev = Inr prev
     \<and> onReject False id' prev = Inr prev
     \<and> approve False id' prev = Inr prev
     \<and> reject False id' prev = Inr prev"
proof -
  have a: "doAction True id' (U ''approve'') prev = map_status id' (U ''Approved'') prev"
    by (simp add: doAction_def)
  have r: "doAction True id' (U ''reject'') prev = map_status id' (U ''Rejected'') prev"
    by (simp add: doAction_def U_inj)
  have f: "doAction True id' (U ''flag'') prev = map_status id' (U ''Flagged'') prev"
    by (simp add: doAction_def U_inj)
  have n: "doAction False id' action prev = Inr prev" "onApprove False id' prev = Inr prev"
    "onReject False id' prev = Inr prev" "approve False id' prev = Inr prev"
    "reject False id' prev = Inr prev"
    by (simp_all add: doAction_def onApprove_def onReject_def approve_def reject_def)
  have e: "onApprove True id' prev = doAction True id' (U ''approve'') prev"
    "approve True id' prev = doAction True id' (U ''approve'') prev"
    "onReject True id' prev = doAction True id' (U ''reject'') prev"
    "reject True id' prev = doAction True id' (U ''reject'') prev"
    unfolding a r by (simp_all add: onApprove_def onReject_def approve_def reject_def)
  show ?thesis
    unfolding e n unfolding a r f
    using map_status_objects [OF assms(1)] by simp
qed

theorem actions_change_only_status_witness:
  "list_all is_object
     [Obj [(U ''_id'', Str (U ''a1'')), (U ''status'', Str (U ''Pending'')),
           (U ''user_name'', Str (U ''Asha''))],
      Obj [(U ''_id'', Str (U ''b2'')), (U ''user_name'', Str (U ''Ravi''))]]
   \<and> is_primitive (Str (U ''a1''))
   \<and> doAction True (Str (U ''a1'')) (U ''flag'')
       [Obj [(U ''_id'', Str (U ''a1'')), (U ''status'', Str (U ''Pending'')),
             (U ''user_name'', Str (U ''Asha''))],
        Obj [(U ''_id'', Str (U ''b2'')), (U ''user_name'', Str (U ''Ravi''))]]
     = Inr
       [Obj [(U ''_id'', Str (U ''a1'')), (U ''status'', Str (U ''Flagged'')),
             (U ''user_name'', Str (U ''Asha''))],
        Obj [(U ''_id'', Str (U ''b2'')), (U ''user_name'', Str (U ''Ravi''))]]
   \<and> status_update (Str (U ''a1'')) (U ''Flagged'')
       [Obj [(U ''_id'', Str (U ''a1'')), (U ''status'', Str (U ''Pending'')),
             (U ''user_name'', Str (U ''Asha''))],
        Obj [(U ''_id'', Str (U ''b2'')), (U ''user_name'', Str (U ''Ravi''))]]
       [Obj [(U ''_id'', Str (U ''a1'')), (U ''status'', Str (U ''Flagged'')),
             (U ''user_name'', Str (U ''Asha''))],
        Obj [(U ''_id'', Str (U ''b2'')), (U ''user_name'', Str (U ''Ravi''))]]"
proof -
  let ?a = "Obj [(U ''_id'', Str (U ''a1'')), (U ''status'', Str (U ''Pending'')),
                 (U ''user_name'', Str (U ''Asha''))]"
  let ?a' = "Obj [(U ''_id'', Str (U ''a1'')), (U ''status'', Str (U ''Flagged'')),
                  (U ''user_name'', Str (U ''Asha''))]"
  let ?b = "Obj [(U ''_id'', Str (U ''b2'')), (U ''user_name'', Str (U ''Ravi''))]"
  have o: "list_all is_object [?a, ?b]"
    by simp
  have p: "is_primitive (Str (U ''a1''))"
    by simp
  have d: "doAction True (Str (U ''a1'')) (U ''flag'') [?a, ?b] = Inr [?a', ?b]"
    by (simp add: doAction_def strict_eq_def with_status_def U_inj)
  have "\<exists>nxt. doAction True (Str (U ''a1'')) (U ''flag'') [?a, ?b] = Inr nxt
        \<and> status_update (Str (U ''a1'')) (U ''Flagged'') [?a, ?b] nxt"
    using actions_change_only_status [OF o p] by blast
  then have "status_update (Str (U ''a1'')) (U ''Flagged'') [?a, ?b] [?a', ?b]"
    unfolding d by simp
  with o p d show ?thesis
    by blast
qed

section \<open>Totality\<close>

text \<open>
  Claim C9 says that no derivation function ever raises, whatever the input. The reason
  builder does: on a record whose \<open>flags_text\<close> is the number 5 it calls \<open>trim\<close> on a
  number and raises a TypeError, and so it does, like the confidence normalizer, on a
  record that is \<open>null\<close>.
\<close>

theorem buildRiskReason_raises:
  "buildRiskReason rt (Obj [(U ''fraud_result'', Obj [(U ''flags_text'', Num (Fin 5))])])
     = Inl TypeError
   \<and> buildRiskReason rt Null = Inl TypeError
   \<and> extractConfidence rt Null = Inl TypeError"
proof -
  have a: "buildRiskReason rt (Obj [(U ''fraud_result'', Obj [(U ''flags_text'', Num (Fin 5))])])
      = Inl TypeError"
    by (simp add: buildRiskReason_def fraud_of_def or_else_def)
  have b: "buildRiskReason rt Null = Inl TypeError" "extractConfidence rt Null = Inl TypeError"
    by (simp_all add: buildRiskReason_def extractConfidence_def)
  from a b show ?thesis
    by simp
qed

end
